theory Spec2Isabelle
  imports Complex_Main
begin

section \<open>Python values, exceptions and dataframes\<close>

text \<open>
  The analyzers are Python classes over pandas dataframes returned by the \<^verbatim>\<open>nba_api\<close>
  package. An exception is a value of type \<open>error\<close>; a method that can raise returns
  \<open>error + 'a\<close> with \<open>Inl\<close> the exception. A remote endpoint of \<^verbatim>\<open>nba_api\<close> can raise
  any of them: \<open>JSONDecodeError\<close> on a response that is not JSON, \<open>ConnectionError\<close> on a
  network failure, and also a plain \<open>ValueError\<close> or \<open>KeyError\<close> from the code that builds
  the frames. In Python \<^verbatim>\<open>json.JSONDecodeError\<close> is a subclass of \<^verbatim>\<open>ValueError\<close>.

  Python floats are idealised as \<open>real\<close>: \<^verbatim>\<open>a / b * 100\<close> is exact division and
  multiplication, not IEEE rounding.
\<close>

datatype error =
    ValueError string
  | KeyError string
  | TypeError
  | IndexError
  | FileNotFoundError string
  | JSONDecodeError string
  | ConnectionError string

text \<open>\<^verbatim>\<open>isinstance(err, ValueError)\<close>.\<close>

fun is_ValueError :: "error \<Rightarrow> bool" where
  "is_ValueError (ValueError msg) = True"
| "is_ValueError (JSONDecodeError msg) = True"
| "is_ValueError (KeyError k) = False"
| "is_ValueError TypeError = False"
| "is_ValueError IndexError = False"
| "is_ValueError (FileNotFoundError f) = False"
| "is_ValueError (ConnectionError msg) = False"

text \<open>A Python scalar: an int, a float (\<open>NaN\<close> is the float nan) or a str.\<close>

datatype pyval = IntV int | FloatV real | NaN | StrV string

text \<open>
  A dataframe has column labels (assumed distinct) and rows; a row gives the cell under
  each label, and only the labels listed in \<open>columns\<close> are part of the frame. A cell is
  a Python scalar; a missing number is the float \<open>NaN\<close>, and None cells are outside the
  model.
\<close>

type_synonym row = "string \<Rightarrow> pyval"

text \<open>A row from its (label, cell) pairs.\<close>

definition row_of :: "(string \<times> pyval) list \<Rightarrow> row" where
  "row_of al = (\<lambda>c. case map_of al c of Some v \<Rightarrow> v | None \<Rightarrow> NaN)"

record dataframe =
  columns :: "string list"
  rows :: "row list"

definition bindE :: "error + 'a \<Rightarrow> ('a \<Rightarrow> error + 'b) \<Rightarrow> error + 'b" where
  "bindE m f = (case m of Inl e \<Rightarrow> Inl e | Inr x \<Rightarrow> f x)"

text \<open>\<^verbatim>\<open>pd.DataFrame()\<close>: no columns, no rows.\<close>

definition empty_dataframe :: dataframe where
  "empty_dataframe = \<lparr>columns = [], rows = []\<rparr>"

text \<open>\<^verbatim>\<open>len(df)\<close>: the number of rows.\<close>

definition df_len :: "dataframe \<Rightarrow> nat" where
  "df_len df = length (rows df)"

text \<open>\<^verbatim>\<open>df[c]\<close>: the column as a series, KeyError when the label is absent.\<close>

definition df_getitem :: "dataframe \<Rightarrow> string \<Rightarrow> error + pyval list" where
  "df_getitem df c =
     (if c \<in> set (columns df) then Inr (map (\<lambda>r. r c) (rows df)) else Inl (KeyError c))"

text \<open>Elementwise \<^verbatim>\<open>== k\<close> against an integer and against a string literal.\<close>

fun cell_eq_int :: "pyval \<Rightarrow> int \<Rightarrow> bool" where
  "cell_eq_int (IntV i) k = (i = k)"
| "cell_eq_int (FloatV x) k = (x = real_of_int k)"
| "cell_eq_int NaN k = False"
| "cell_eq_int (StrV s) k = False"

fun cell_eq_str :: "pyval \<Rightarrow> string \<Rightarrow> bool" where
  "cell_eq_str (StrV s) t = (s = t)"
| "cell_eq_str (IntV i) t = False"
| "cell_eq_str (FloatV x) t = False"
| "cell_eq_str NaN t = False"

text \<open>\<^verbatim>\<open>df[mask]\<close>: the rows whose mask entry is True, same columns.\<close>

definition df_mask :: "dataframe \<Rightarrow> bool list \<Rightarrow> dataframe" where
  "df_mask df m = df\<lparr>rows := map fst (filter snd (zip (rows df) m))\<rparr>"

text \<open>\<^verbatim>\<open>df[df[c] == k]\<close> for an integer and for a string \<open>k\<close>.\<close>

definition df_where_int :: "dataframe \<Rightarrow> string \<Rightarrow> int \<Rightarrow> error + dataframe" where
  "df_where_int df c k =
     bindE (df_getitem df c) (\<lambda>col. Inr (df_mask df (map (\<lambda>x. cell_eq_int x k) col)))"

definition df_where_str :: "dataframe \<Rightarrow> string \<Rightarrow> string \<Rightarrow> error + dataframe" where
  "df_where_str df c k =
     bindE (df_getitem df c) (\<lambda>col. Inr (df_mask df (map (\<lambda>x. cell_eq_str x k) col)))"

text \<open>\<^verbatim>\<open>df.iloc[::-1].reset_index(drop=True)\<close>: a new frame with the rows reversed.\<close>

definition df_reversed :: "dataframe \<Rightarrow> dataframe" where
  "df_reversed df = df\<lparr>rows := rev (rows df)\<rparr>"

text \<open>
  \<^verbatim>\<open>series.mean()\<close>: TypeError on a column holding a string (object dtype); otherwise
  the arithmetic mean of the numbers, NaN cells skipped, and NaN when no number is left.
\<close>

fun cell_is_str :: "pyval \<Rightarrow> bool" where
  "cell_is_str (StrV s) = True"
| "cell_is_str (IntV i) = False"
| "cell_is_str (FloatV x) = False"
| "cell_is_str NaN = False"

fun cell_nums :: "pyval list \<Rightarrow> real list" where
  "cell_nums [] = []"
| "cell_nums (IntV i # xs) = real_of_int i # cell_nums xs"
| "cell_nums (FloatV x # xs) = x # cell_nums xs"
| "cell_nums (NaN # xs) = cell_nums xs"
| "cell_nums (StrV s # xs) = cell_nums xs"

definition series_mean :: "pyval list \<Rightarrow> error + pyval" where
  "series_mean xs =
     (if list_ex cell_is_str xs then Inl TypeError
      else if cell_nums xs = [] then Inr NaN
      else Inr (FloatV (sum_list (cell_nums xs) / real (length (cell_nums xs)))))"

text \<open>\<^verbatim>\<open>x * 100\<close> on a mean.\<close>

fun times100 :: "pyval \<Rightarrow> pyval" where
  "times100 (FloatV x) = FloatV (x * 100)"
| "times100 (IntV i) = IntV (i * 100)"
| "times100 NaN = NaN"
| "times100 (StrV s) = StrV (concat (replicate 100 s))"

text \<open>\<^verbatim>\<open>f"{x}"\<close> of an attribute that may still be None.\<close>

definition str_of_opt :: "string option \<Rightarrow> string" where
  "str_of_opt x = (case x of None \<Rightarrow> ''None'' | Some s \<Rightarrow> s)"

text \<open>\<^verbatim>\<open>f"{kind} '{name}' not found"\<close>.\<close>

definition not_found :: "string \<Rightarrow> string \<Rightarrow> string" where
  "not_found kind name = kind @ '' '' @ [CHR 0x27] @ name @ [CHR 0x27] @ '' not found''"

section \<open>The stats provider\<close>

text \<open>
  The static lookup tables and the remote endpoints of \<^verbatim>\<open>nba_api\<close> are parameters of
  the model. A static lookup returns the matching entries; an endpoint call either raises
  (\<open>Inl\<close> with the exception, of any class) or yields the list that
  \<^verbatim>\<open>get_data_frames()\<close> returns.
\<close>

record static_entry =
  entry_id :: int
  full_name :: string

record env =
  find_players_by_full_name :: "string \<Rightarrow> static_entry list"
  find_teams_by_full_name :: "string \<Rightarrow> static_entry list"
  find_team_by_abbreviation :: "string \<Rightarrow> static_entry option"
  ShotChartDetail :: "int \<Rightarrow> int \<Rightarrow> string \<Rightarrow> string \<Rightarrow> string \<Rightarrow> error + dataframe list"
  CommonPlayerInfo :: "int \<Rightarrow> error + dataframe list"
  PlayerCareerStats :: "int \<Rightarrow> string \<Rightarrow> error + dataframe list"
  PlayerGameLog :: "int \<Rightarrow> string \<Rightarrow> string \<Rightarrow> error + dataframe list"
  LeagueDashTeamStats :: "string \<Rightarrow> string \<Rightarrow> string \<Rightarrow> error + dataframe list"
  TeamGameLog :: "int \<Rightarrow> string \<Rightarrow> string \<Rightarrow> error + dataframe list"

text \<open>
  \<^verbatim>\<open>endpoint(...).get_data_frames()[0]\<close>: what the endpoint raises is propagated as it
  is, and an empty list of frames raises IndexError.
\<close>

definition first_frame :: "error + dataframe list \<Rightarrow> error + dataframe" where
  "first_frame r =
     (case r of
        Inl err \<Rightarrow> Inl err
      | Inr [] \<Rightarrow> Inl IndexError
      | Inr (df # _) \<Rightarrow> Inr df)"

section \<open>ShotChartAnalyzer: lookups and fetch\<close>

record ShotChartAnalyzer =
  shot_data :: "dataframe option"

definition shot_init :: ShotChartAnalyzer where
  "shot_init = \<lparr>shot_data = None\<rparr>"

definition get_player_id :: "env \<Rightarrow> string \<Rightarrow> int option" where
  "get_player_id e player_name =
     (case find_players_by_full_name e player_name of
        [] \<Rightarrow> None
      | p # _ \<Rightarrow> Some (entry_id p))"

definition shot_get_team_id :: "env \<Rightarrow> string \<Rightarrow> int option" where
  "shot_get_team_id e team_name =
     (case find_teams_by_full_name e team_name of
        [] \<Rightarrow> None
      | t # _ \<Rightarrow> Some (entry_id t))"

definition fetch_shot_data ::
  "env \<Rightarrow> ShotChartAnalyzer \<Rightarrow> string \<Rightarrow> string \<Rightarrow> string \<Rightarrow>
     (error + dataframe) \<times> ShotChartAnalyzer" where
  "fetch_shot_data e self player_name season season_type =
     (case get_player_id e player_name of
        None \<Rightarrow> (Inl (ValueError (not_found ''Player'' player_name)), self)
      | Some player_id \<Rightarrow>
          (case first_frame (ShotChartDetail e 0 player_id season season_type ''FGA'') of
             Inl err \<Rightarrow> (Inl err, self)
           | Inr df \<Rightarrow> (Inr df, self\<lparr>shot_data := Some df\<rparr>)))"

section \<open>Figures\<close>

text \<open>
  A matplotlib figure is kept as the data handed to the plotting calls and its title.
  The court patches, axis labels, limits, grid and legend are constants of each method
  and are left out. In a shot chart's default title the last field is the figure's
  field-goal percentage, which the f-string prints with one decimal.
\<close>

datatype artist =
    Scatter string "pyval list" "pyval list"
  | Line "string option" "pyval list" "pyval list"
  | Bars "string list" "pyval list"

datatype chart_title =
    Title string
  | ShotChartTitle string string string pyval

record figure =
  fig_artists :: "artist list"
  fig_title :: chart_title

text \<open>\<^verbatim>\<open>df.index\<close> after \<^verbatim>\<open>reset_index(drop=True)\<close>: 0, 1, ..., len - 1.\<close>

definition df_index :: "dataframe \<Rightarrow> pyval list" where
  "df_index df = map (\<lambda>i. IntV (int i)) [0..<df_len df]"

section \<open>ShotChartAnalyzer: chart and statistics\<close>

text \<open>
  \<^verbatim>\<open>(part / whole * 100) if whole > 0 else 0\<close> on two counts, as in \<^verbatim>\<open>plot_shot_chart\<close>,
  \<^verbatim>\<open>get_shot_statistics\<close> and \<^verbatim>\<open>get_team_summary\<close>.
\<close>

definition percentage_or_zero :: "nat \<Rightarrow> nat \<Rightarrow> pyval" where
  "percentage_or_zero part whole =
     (if whole > 0 then FloatV (real part / real whole * 100) else IntV 0)"

text \<open>
  Lines 170 to 200 of \<^verbatim>\<open>plot_shot_chart\<close>, which read \<^verbatim>\<open>self.shot_data\<close>;
  subscripting None raises TypeError.
\<close>

definition shot_chart_figure ::
  "ShotChartAnalyzer \<Rightarrow> string \<Rightarrow> string \<Rightarrow> string \<Rightarrow> string option \<Rightarrow> error + figure" where
  "shot_chart_figure self player_name season season_type title =
     (case shot_data self of
        None \<Rightarrow> Inl TypeError
      | Some df \<Rightarrow>
          bindE (df_where_int df ''SHOT_MADE_FLAG'' 1) (\<lambda>made_shots.
          bindE (df_where_int df ''SHOT_MADE_FLAG'' 0) (\<lambda>missed_shots.
          bindE (df_getitem missed_shots ''LOC_X'') (\<lambda>missed_x.
          bindE (df_getitem missed_shots ''LOC_Y'') (\<lambda>missed_y.
          bindE (df_getitem made_shots ''LOC_X'') (\<lambda>made_x.
          bindE (df_getitem made_shots ''LOC_Y'') (\<lambda>made_y.
          Inr \<lparr>fig_artists = [Scatter ''Missed'' missed_x missed_y, Scatter ''Made'' made_x made_y],
               fig_title =
                 (case title of
                    Some t \<Rightarrow> Title t
                  | None \<Rightarrow>
                      ShotChartTitle player_name season season_type
                        (percentage_or_zero (df_len made_shots) (df_len df)))\<rparr>)))))))"

definition plot_shot_chart ::
  "env \<Rightarrow> ShotChartAnalyzer \<Rightarrow> string \<Rightarrow> string \<Rightarrow> string \<Rightarrow> string option \<Rightarrow>
     (error + figure) \<times> ShotChartAnalyzer" where
  "plot_shot_chart e self player_name season season_type title =
     (if shot_data self = None then
        (case fetch_shot_data e self player_name season season_type of
           (Inl err, self1) \<Rightarrow> (Inl err, self1)
         | (Inr df, self1) \<Rightarrow>
             (shot_chart_figure self1 player_name season season_type title, self1))
      else (shot_chart_figure self player_name season season_type title, self))"

definition get_shot_statistics :: "ShotChartAnalyzer \<Rightarrow> error + (string \<rightharpoonup> pyval)" where
  "get_shot_statistics self =
     (case shot_data self of
        None \<Rightarrow> Inr Map.empty
      | Some df \<Rightarrow>
          if df_len df = 0 then Inr Map.empty
          else
            let total_shots = df_len df in
            bindE (df_where_int df ''SHOT_MADE_FLAG'' 1) (\<lambda>made_df.
            let made_shots = df_len made_df;
                stats = [''total_shots'' \<mapsto> IntV (int total_shots),
                         ''made_shots'' \<mapsto> IntV (int made_shots),
                         ''missed_shots'' \<mapsto> IntV (int total_shots - int made_shots),
                         ''fg_percentage'' \<mapsto> percentage_or_zero made_shots total_shots]
            in
            bindE (df_where_str df ''SHOT_TYPE'' ''3PT Field Goal'') (\<lambda>three_pointers.
            bindE (if df_len three_pointers > 0 then
                     bindE (df_where_int three_pointers ''SHOT_MADE_FLAG'' 1) (\<lambda>made_3pt.
                       Inr (stats
                         (''three_pt_attempts'' \<mapsto> IntV (int (df_len three_pointers)),
                          ''three_pt_made'' \<mapsto> IntV (int (df_len made_3pt)),
                          ''three_pt_percentage'' \<mapsto>
                            FloatV (real (df_len made_3pt) / real (df_len three_pointers) * 100))))
                   else Inr stats) (\<lambda>stats3.
            bindE (df_where_str df ''SHOT_TYPE'' ''2PT Field Goal'') (\<lambda>two_pointers.
            if df_len two_pointers > 0 then
              bindE (df_where_int two_pointers ''SHOT_MADE_FLAG'' 1) (\<lambda>made_2pt.
                Inr (stats3
                  (''two_pt_attempts'' \<mapsto> IntV (int (df_len two_pointers)),
                   ''two_pt_made'' \<mapsto> IntV (int (df_len made_2pt)),
                   ''two_pt_percentage'' \<mapsto>
                     FloatV (real (df_len made_2pt) / real (df_len two_pointers) * 100))))
            else Inr stats3)))))"

section \<open>PlayerStatsAnalyzer: lookups and fetch\<close>

record PlayerStatsAnalyzer =
  player_id :: "int option"
  player_name :: "string option"
  career_stats :: "dataframe option"
  game_log :: "dataframe option"

definition player_init :: PlayerStatsAnalyzer where
  "player_init = \<lparr>player_id = None, player_name = None, career_stats = None, game_log = None\<rparr>"

text \<open>
  The three fetch methods start with the same two assignments,
  \<^verbatim>\<open>self.player_id = self.get_player_id(player_name); self.player_name = player_name\<close>,
  and raise only after them.
\<close>

definition fetch_player_info ::
  "env \<Rightarrow> PlayerStatsAnalyzer \<Rightarrow> string \<Rightarrow> (error + dataframe) \<times> PlayerStatsAnalyzer" where
  "fetch_player_info e self name =
     (let self1 = self\<lparr>player_id := get_player_id e name, player_name := Some name\<rparr> in
      case player_id self1 of
        None \<Rightarrow> (Inl (ValueError (not_found ''Player'' name)), self1)
      | Some pid \<Rightarrow> (first_frame (CommonPlayerInfo e pid), self1))"

definition fetch_career_stats ::
  "env \<Rightarrow> PlayerStatsAnalyzer \<Rightarrow> string \<Rightarrow> string \<Rightarrow>
     (error + dataframe) \<times> PlayerStatsAnalyzer" where
  "fetch_career_stats e self name per_mode =
     (let self1 = self\<lparr>player_id := get_player_id e name, player_name := Some name\<rparr> in
      case player_id self1 of
        None \<Rightarrow> (Inl (ValueError (not_found ''Player'' name)), self1)
      | Some pid \<Rightarrow>
          (case first_frame (PlayerCareerStats e pid per_mode) of
             Inl err \<Rightarrow> (Inl err, self1)
           | Inr df \<Rightarrow> (Inr df, self1\<lparr>career_stats := Some df\<rparr>)))"

definition fetch_game_log ::
  "env \<Rightarrow> PlayerStatsAnalyzer \<Rightarrow> string \<Rightarrow> string \<Rightarrow> string \<Rightarrow>
     (error + dataframe) \<times> PlayerStatsAnalyzer" where
  "fetch_game_log e self name season season_type =
     (let self1 = self\<lparr>player_id := get_player_id e name, player_name := Some name\<rparr> in
      case player_id self1 of
        None \<Rightarrow> (Inl (ValueError (not_found ''Player'' name)), self1)
      | Some pid \<Rightarrow>
          (case first_frame (PlayerGameLog e pid season season_type) of
             Inl err \<Rightarrow> (Inl err, self1)
           | Inr df \<Rightarrow> (Inr df, self1\<lparr>PlayerStatsAnalyzer.game_log := Some df\<rparr>)))"

section \<open>PlayerStatsAnalyzer: plots and summaries\<close>

text \<open>\<^verbatim>\<open>df[c].mean()\<close>.\<close>

definition col_mean :: "dataframe \<Rightarrow> string \<Rightarrow> error + pyval" where
  "col_mean df c = bindE (df_getitem df c) series_mean"

definition plot_career_progression :: "PlayerStatsAnalyzer \<Rightarrow> string \<Rightarrow> error + figure" where
  "plot_career_progression self stat_column =
     (case career_stats self of
        None \<Rightarrow> Inl (ValueError ''No career stats loaded. Call fetch_career_stats first.'')
      | Some df \<Rightarrow>
          if df_len df = 0
          then Inl (ValueError ''No career stats loaded. Call fetch_career_stats first.'')
          else
            bindE (df_getitem df ''SEASON_ID'') (\<lambda>seasons.
            bindE (df_getitem df stat_column) (\<lambda>vals.
            Inr \<lparr>fig_artists = [Line None seasons vals],
                 fig_title = Title (str_of_opt (player_name self) @ '' Career '' @ stat_column
                                      @ '' Progression'')\<rparr>)))"

text \<open>
  The loop of \<^verbatim>\<open>plot_season_performance\<close> and \<^verbatim>\<open>plot_team_performance\<close>: one line
  per requested statistic that is a column of the reversed log.
\<close>

definition performance_lines :: "dataframe \<Rightarrow> string list \<Rightarrow> artist list" where
  "performance_lines glog stat_columns =
     map (\<lambda>stat. Line (Some stat) (df_index glog) (map (\<lambda>r. r stat) (rows glog)))
       (filter (\<lambda>stat. stat \<in> set (columns glog)) stat_columns)"

definition plot_season_performance ::
  "PlayerStatsAnalyzer \<Rightarrow> string list \<Rightarrow> error + figure" where
  "plot_season_performance self stat_columns =
     (case PlayerStatsAnalyzer.game_log self of
        None \<Rightarrow> Inl (ValueError ''No game log loaded. Call fetch_game_log first.'')
      | Some df \<Rightarrow>
          if df_len df = 0
          then Inl (ValueError ''No game log loaded. Call fetch_game_log first.'')
          else
            Inr \<lparr>fig_artists = performance_lines (df_reversed df) stat_columns,
                 fig_title = Title (str_of_opt (player_name self) @ '' Season Performance'')\<rparr>)"

text \<open>
  The dtype pandas gives a column built from Python scalars: object when it holds a
  string or has no entry, float64 when it holds a float, and for a column of ints int64
  when all fit in 64 signed bits, uint64 when all fit in 64 unsigned bits, object
  otherwise.
\<close>

datatype dtype = Int64 | UInt64 | Float64 | Object

fun cell_is_float :: "pyval \<Rightarrow> bool" where
  "cell_is_float (FloatV x) = True"
| "cell_is_float NaN = True"
| "cell_is_float (IntV i) = False"
| "cell_is_float (StrV s) = False"

fun in_int64 :: "pyval \<Rightarrow> bool" where
  "in_int64 (IntV i) = (- (2 ^ 63) \<le> i \<and> i < 2 ^ 63)"
| "in_int64 (FloatV x) = False"
| "in_int64 NaN = False"
| "in_int64 (StrV s) = False"

fun in_uint64 :: "pyval \<Rightarrow> bool" where
  "in_uint64 (IntV i) = (0 \<le> i \<and> i < 2 ^ 64)"
| "in_uint64 (FloatV x) = False"
| "in_uint64 NaN = False"
| "in_uint64 (StrV s) = False"

definition series_dtype :: "pyval list \<Rightarrow> dtype" where
  "series_dtype xs =
     (if xs = [] \<or> list_ex cell_is_str xs then Object
      else if list_ex cell_is_float xs then Float64
      else if list_all in_int64 xs then Int64
      else if list_all in_uint64 xs then UInt64
      else Object)"

text \<open>\<^verbatim>\<open>df.select_dtypes(include=['float64', 'int64']).columns\<close>.\<close>

definition numeric_cols :: "dataframe \<Rightarrow> string list" where
  "numeric_cols df =
     filter (\<lambda>c. series_dtype (map (\<lambda>r. r c) (rows df)) \<in> {Float64, Int64}) (columns df)"

fun season_averages_loop ::
  "dataframe \<Rightarrow> string list \<Rightarrow> (string \<rightharpoonup> pyval) \<Rightarrow> error + (string \<rightharpoonup> pyval)" where
  "season_averages_loop df [] averages = Inr averages"
| "season_averages_loop df (col # cols) averages =
     (if col \<in> set (numeric_cols df)
      then bindE (col_mean df col) (\<lambda>m. season_averages_loop df cols (averages(col \<mapsto> m)))
      else season_averages_loop df cols averages)"

definition get_season_averages :: "PlayerStatsAnalyzer \<Rightarrow> error + (string \<rightharpoonup> pyval)" where
  "get_season_averages self =
     (case PlayerStatsAnalyzer.game_log self of
        None \<Rightarrow> Inr Map.empty
      | Some df \<Rightarrow>
          if df_len df = 0 then Inr Map.empty
          else season_averages_loop df
                 [''PTS'', ''AST'', ''REB'', ''STL'', ''BLK'', ''FG_PCT'', ''FG3_PCT'', ''FT_PCT'',
                  ''MIN'']
                 Map.empty)"

definition plot_shooting_splits :: "PlayerStatsAnalyzer \<Rightarrow> error + figure" where
  "plot_shooting_splits self =
     (case PlayerStatsAnalyzer.game_log self of
        None \<Rightarrow> Inl (ValueError ''No game log loaded. Call fetch_game_log first.'')
      | Some df \<Rightarrow>
          if df_len df = 0
          then Inl (ValueError ''No game log loaded. Call fetch_game_log first.'')
          else
            bindE (col_mean df ''FG_PCT'') (\<lambda>fg.
            bindE (col_mean df ''FG3_PCT'') (\<lambda>fg3.
            bindE (col_mean df ''FT_PCT'') (\<lambda>ft.
            Inr \<lparr>fig_artists = [Bars [''FG%'', ''3P%'', ''FT%'']
                                   [times100 fg, times100 fg3, times100 ft]],
                 fig_title = Title (str_of_opt (player_name self) @ '' Shooting Splits'')\<rparr>))))"

text \<open>
  The \<^verbatim>\<open>Value\<close> column of the summary is built from an int and nine floats, so it is a
  float column; \<^verbatim>\<open>.round(2)\<close> rounds each entry to two decimals, ties to even.
\<close>

fun to_float :: "pyval \<Rightarrow> pyval" where
  "to_float (IntV i) = FloatV (real_of_int i)"
| "to_float (FloatV x) = FloatV x"
| "to_float NaN = NaN"
| "to_float (StrV s) = StrV s"

definition round_half_even :: "real \<Rightarrow> int" where
  "round_half_even x =
     (let f = \<lfloor>x\<rfloor> in
      if x - real_of_int f < 1 / 2 then f
      else if x - real_of_int f > 1 / 2 then f + 1
      else if even f then f else f + 1)"

fun round2 :: "pyval \<Rightarrow> pyval" where
  "round2 (FloatV x) = FloatV (real_of_int (round_half_even (x * 100)) / 100)"
| "round2 (IntV i) = IntV i"
| "round2 NaN = NaN"
| "round2 (StrV s) = StrV s"

definition create_stats_summary :: "PlayerStatsAnalyzer \<Rightarrow> error + dataframe" where
  "create_stats_summary self =
     (case PlayerStatsAnalyzer.game_log self of
        None \<Rightarrow> Inr empty_dataframe
      | Some df \<Rightarrow>
          if df_len df = 0 then Inr empty_dataframe
          else
            bindE (col_mean df ''PTS'') (\<lambda>pts.
            bindE (col_mean df ''REB'') (\<lambda>reb.
            bindE (col_mean df ''AST'') (\<lambda>ast.
            bindE (col_mean df ''STL'') (\<lambda>stl.
            bindE (col_mean df ''BLK'') (\<lambda>blk.
            bindE (col_mean df ''FG_PCT'') (\<lambda>fg.
            bindE (col_mean df ''FG3_PCT'') (\<lambda>fg3.
            bindE (col_mean df ''FT_PCT'') (\<lambda>ft.
            bindE (col_mean df ''MIN'') (\<lambda>mins.
            Inr \<lparr>columns = [''Statistic'', ''Value''],
                 rows =
                   map (\<lambda>(s, v). row_of [(''Statistic'', StrV s), (''Value'', round2 (to_float v))])
                     (zip [''Games Played'', ''PPG'', ''RPG'', ''APG'', ''SPG'', ''BPG'',
                           ''FG%'', ''3P%'', ''FT%'', ''MPG'']
                          [IntV (int (df_len df)), pts, reb, ast, stl, blk,
                           times100 fg, times100 fg3, times100 ft, mins])\<rparr>))))))))))"

section \<open>TeamStatsAnalyzer: lookups and fetch\<close>

record TeamStatsAnalyzer =
  team_id :: "int option"
  team_name :: "string option"
  team_stats :: "dataframe option"
  game_log :: "dataframe option"

definition team_init :: TeamStatsAnalyzer where
  "team_init = \<lparr>team_id = None, team_name = None, team_stats = None, game_log = None\<rparr>"

text \<open>Full name first, abbreviation second.\<close>

definition get_team_id :: "env \<Rightarrow> string \<Rightarrow> int option" where
  "get_team_id e name =
     (case find_teams_by_full_name e name of
        t # _ \<Rightarrow> Some (entry_id t)
      | [] \<Rightarrow>
          (case find_team_by_abbreviation e name of
             Some t \<Rightarrow> Some (entry_id t)
           | None \<Rightarrow> None))"

definition fetch_league_standings ::
  "env \<Rightarrow> TeamStatsAnalyzer \<Rightarrow> string \<Rightarrow> string \<Rightarrow>
     (error + dataframe) \<times> TeamStatsAnalyzer" where
  "fetch_league_standings e self season season_type =
     (case first_frame (LeagueDashTeamStats e season season_type ''PerGame'') of
        Inl err \<Rightarrow> (Inl err, self)
      | Inr df \<Rightarrow> (Inr df, self\<lparr>team_stats := Some df\<rparr>))"

definition fetch_team_game_log ::
  "env \<Rightarrow> TeamStatsAnalyzer \<Rightarrow> string \<Rightarrow> string \<Rightarrow> string \<Rightarrow>
     (error + dataframe) \<times> TeamStatsAnalyzer" where
  "fetch_team_game_log e self name season season_type =
     (let self1 = self\<lparr>team_id := get_team_id e name, team_name := Some name\<rparr> in
      case team_id self1 of
        None \<Rightarrow> (Inl (ValueError (not_found ''Team'' name)), self1)
      | Some tid \<Rightarrow>
          (case first_frame (TeamGameLog e tid season season_type) of
             Inl err \<Rightarrow> (Inl err, self1)
           | Inr df \<Rightarrow> (Inr df, self1\<lparr>TeamStatsAnalyzer.game_log := Some df\<rparr>)))"

section \<open>TeamStatsAnalyzer: plots and summary\<close>

definition plot_team_performance :: "TeamStatsAnalyzer \<Rightarrow> string list \<Rightarrow> error + figure" where
  "plot_team_performance self stat_columns =
     (case TeamStatsAnalyzer.game_log self of
        None \<Rightarrow> Inl (ValueError ''No game log loaded. Call fetch_team_game_log first.'')
      | Some df \<Rightarrow>
          if df_len df = 0
          then Inl (ValueError ''No game log loaded. Call fetch_team_game_log first.'')
          else
            Inr \<lparr>fig_artists = performance_lines (df_reversed df) stat_columns,
                 fig_title = Title (str_of_opt (team_name self) @ '' Season Performance'')\<rparr>)"

text \<open>\<^verbatim>\<open>series.cumsum()\<close> on a series of ints.\<close>

fun cumsum_from :: "int \<Rightarrow> int list \<Rightarrow> int list" where
  "cumsum_from acc [] = []"
| "cumsum_from acc (x # xs) = (acc + x) # cumsum_from (acc + x) xs"

definition cumsum :: "int list \<Rightarrow> int list" where
  "cumsum xs = cumsum_from 0 xs"

text \<open>
  Lines 186 to 192 of \<^verbatim>\<open>plot_win_loss_record\<close>: the log reversed into chronological
  order and the three columns \<^verbatim>\<open>IS_WIN\<close>, \<^verbatim>\<open>CUMULATIVE_WINS\<close> and
  \<^verbatim>\<open>CUMULATIVE_LOSSES\<close> computed on it. The columns are added to the reversed copy,
  which only this method sees; the model keeps them as three series of ints.
\<close>

definition win_loss_columns :: "dataframe \<Rightarrow> error + (int list \<times> int list \<times> int list)" where
  "win_loss_columns df =
     (let glog = df_reversed df in
      bindE (df_getitem glog ''WL'') (\<lambda>wl.
        let is_win = map (\<lambda>x. if cell_eq_str x ''W'' then 1 else 0) wl;
            cumulative_wins = cumsum is_win;
            cumulative_losses = cumsum (map (\<lambda>w. 1 - w) is_win)
        in Inr (is_win, cumulative_wins, cumulative_losses)))"

definition plot_win_loss_record :: "TeamStatsAnalyzer \<Rightarrow> error + figure" where
  "plot_win_loss_record self =
     (case TeamStatsAnalyzer.game_log self of
        None \<Rightarrow> Inl (ValueError ''No game log loaded. Call fetch_team_game_log first.'')
      | Some df \<Rightarrow>
          if df_len df = 0
          then Inl (ValueError ''No game log loaded. Call fetch_team_game_log first.'')
          else
            bindE (win_loss_columns df) (\<lambda>(is_win, cumulative_wins, cumulative_losses).
            Inr \<lparr>fig_artists =
                   [Line (Some ''Wins'') (df_index (df_reversed df)) (map IntV cumulative_wins),
                    Line (Some ''Losses'') (df_index (df_reversed df)) (map IntV cumulative_losses)],
                 fig_title = Title (str_of_opt (team_name self) @ '' Win/Loss Record'')\<rparr>))"

text \<open>\<^verbatim>\<open>df.get(c, default)\<close>: the column when the label is present, the default otherwise.\<close>

definition df_get :: "dataframe \<Rightarrow> string \<Rightarrow> pyval list \<Rightarrow> pyval list" where
  "df_get df c dflt = (if c \<in> set (columns df) then map (\<lambda>r. r c) (rows df) else dflt)"

definition get_team_summary :: "TeamStatsAnalyzer \<Rightarrow> error + (string \<rightharpoonup> pyval)" where
  "get_team_summary self =
     (case TeamStatsAnalyzer.game_log self of
        None \<Rightarrow> Inr Map.empty
      | Some df \<Rightarrow>
          if df_len df = 0 then Inr Map.empty
          else
            bindE (df_where_str df ''WL'' ''W'') (\<lambda>win_df.
            bindE (df_where_str df ''WL'' ''L'') (\<lambda>loss_df.
            let wins = df_len win_df; losses = df_len loss_df in
            bindE (col_mean df ''PTS'') (\<lambda>ppg.
            bindE (series_mean (df_get df ''OPP_PTS'' [IntV 0])) (\<lambda>opp_ppg.
            bindE (col_mean df ''FG_PCT'') (\<lambda>fg.
            bindE (col_mean df ''FG3_PCT'') (\<lambda>fg3.
            bindE (col_mean df ''FT_PCT'') (\<lambda>ft.
            bindE (col_mean df ''REB'') (\<lambda>reb.
            bindE (col_mean df ''AST'') (\<lambda>ast.
            Inr [''games_played'' \<mapsto> IntV (int (df_len df)),
                 ''wins'' \<mapsto> IntV (int wins),
                 ''losses'' \<mapsto> IntV (int losses),
                 ''win_percentage'' \<mapsto> percentage_or_zero wins (df_len df),
                 ''ppg'' \<mapsto> ppg,
                 ''opp_ppg'' \<mapsto> opp_ppg,
                 ''fg_pct'' \<mapsto> times100 fg,
                 ''fg3_pct'' \<mapsto> times100 fg3,
                 ''ft_pct'' \<mapsto> times100 ft,
                 ''reb_pg'' \<mapsto> reb,
                 ''ast_pg'' \<mapsto> ast]))))))))))"

section \<open>The game-identifier file\<close>

text \<open>
  \<^verbatim>\<open>grab_today_games.write_to_text\<close> writes the identifiers that
  \<^verbatim>\<open>get_yesterdays_games\<close> fetched, and the module \<^verbatim>\<open>NBA_API\<close> reads them back. The
  file system is a map from file names to contents, a character is a code point below
  256, and the fetched identifiers are an argument of the model. Nothing is written when
  the list is empty.
\<close>

type_synonym files = "string \<rightharpoonup> string"

definition LF :: char where "LF = CHR 0x0A"
definition CR :: char where "CR = CHR 0x0D"

definition write_to_text :: "files \<Rightarrow> string \<Rightarrow> string list \<Rightarrow> files" where
  "write_to_text fs filename game_ids =
     (if game_ids = [] then fs
      else fs(filename \<mapsto> concat (map (\<lambda>gid. gid @ [LF]) game_ids)))"

text \<open>Reading in text mode turns \<^verbatim>\<open>\r\n\<close> and a lone \<^verbatim>\<open>\r\<close> into \<^verbatim>\<open>\n\<close>.\<close>

fun universal_newlines :: "string \<Rightarrow> string" where
  "universal_newlines [] = []"
| "universal_newlines [c] = (if c = CR then [LF] else [c])"
| "universal_newlines (c # d # cs) =
     (if c = CR \<and> d = LF then LF # universal_newlines cs
      else if c = CR then LF # universal_newlines (d # cs)
      else c # universal_newlines (d # cs))"

text \<open>
  \<^verbatim>\<open>for line in f\<close>: the lines with their terminators; \<open>cur\<close> is the line read so far.
\<close>

fun file_lines_from :: "string \<Rightarrow> string \<Rightarrow> string list" where
  "file_lines_from cur [] = (if cur = [] then [] else [cur])"
| "file_lines_from cur (c # cs) =
     (if c = LF then (cur @ [c]) # file_lines_from [] cs else file_lines_from (cur @ [c]) cs)"

definition file_lines :: "string \<Rightarrow> string list" where
  "file_lines content = file_lines_from [] (universal_newlines content)"

text \<open>\<^verbatim>\<open>str.isspace\<close> on one character and \<^verbatim>\<open>str.strip()\<close>.\<close>

definition is_space :: "char \<Rightarrow> bool" where
  "is_space c =
     (let n = of_char c :: nat in
      (9 \<le> n \<and> n \<le> 13) \<or> (28 \<le> n \<and> n \<le> 32) \<or> n = 133 \<or> n = 160)"

definition strip :: "string \<Rightarrow> string" where
  "strip s = rev (dropWhile is_space (rev (dropWhile is_space s)))"

text \<open>The read loop of \<^verbatim>\<open>NBA_API\<close>, which opens \<^verbatim>\<open>yesterdays_games.txt\<close>.\<close>

definition read_games :: "files \<Rightarrow> error + string list" where
  "read_games fs =
     (case fs ''yesterdays_games.txt'' of
        None \<Rightarrow> Inl (FileNotFoundError ''yesterdays_games.txt'')
      | Some content \<Rightarrow> Inr (map strip (file_lines content)))"

section \<open>Sequences of method calls\<close>

text \<open>
  A call names a method of the analyzer and its arguments; its effect is the analyzer
  after the call, whether the method returned or raised. Each call of a sequence comes
  with the provider as it answers at that moment. The methods not listed
  (\<^verbatim>\<open>draw_court\<close>, \<^verbatim>\<open>plot_league_leaders\<close>, \<^verbatim>\<open>compare_teams\<close>) assign no attribute.
\<close>

datatype shot_call =
    Shot_get_player_id string
  | Shot_get_team_id string
  | Shot_fetch_shot_data string string string
  | Shot_plot_shot_chart string string string "string option"
  | Shot_get_shot_statistics

fun shot_effect :: "env \<Rightarrow> shot_call \<Rightarrow> ShotChartAnalyzer \<Rightarrow> ShotChartAnalyzer" where
  "shot_effect e (Shot_fetch_shot_data n season st) self = snd (fetch_shot_data e self n season st)"
| "shot_effect e (Shot_plot_shot_chart n season st t) self =
     snd (plot_shot_chart e self n season st t)"
| "shot_effect e (Shot_get_player_id n) self = self"
| "shot_effect e (Shot_get_team_id n) self = self"
| "shot_effect e Shot_get_shot_statistics self = self"

fun shot_run :: "(env \<times> shot_call) list \<Rightarrow> ShotChartAnalyzer \<Rightarrow> ShotChartAnalyzer" where
  "shot_run [] self = self"
| "shot_run ((e, c) # cs) self = shot_run cs (shot_effect e c self)"

datatype player_call =
    Player_get_player_id string
  | Player_fetch_player_info string
  | Player_fetch_career_stats string string
  | Player_fetch_game_log string string string
  | Player_plot_career_progression string
  | Player_plot_season_performance "string list"
  | Player_get_season_averages
  | Player_plot_shooting_splits
  | Player_create_stats_summary

fun player_effect :: "env \<Rightarrow> player_call \<Rightarrow> PlayerStatsAnalyzer \<Rightarrow> PlayerStatsAnalyzer" where
  "player_effect e (Player_fetch_player_info n) self = snd (fetch_player_info e self n)"
| "player_effect e (Player_fetch_career_stats n m) self = snd (fetch_career_stats e self n m)"
| "player_effect e (Player_fetch_game_log n season st) self =
     snd (fetch_game_log e self n season st)"
| "player_effect e (Player_get_player_id n) self = self"
| "player_effect e (Player_plot_career_progression c) self = self"
| "player_effect e (Player_plot_season_performance cs) self = self"
| "player_effect e Player_get_season_averages self = self"
| "player_effect e Player_plot_shooting_splits self = self"
| "player_effect e Player_create_stats_summary self = self"

fun player_run ::
  "(env \<times> player_call) list \<Rightarrow> PlayerStatsAnalyzer \<Rightarrow> PlayerStatsAnalyzer" where
  "player_run [] self = self"
| "player_run ((e, c) # cs) self = player_run cs (player_effect e c self)"

datatype team_call =
    Team_get_team_id string
  | Team_fetch_league_standings string string
  | Team_fetch_team_game_log string string string
  | Team_plot_team_performance "string list"
  | Team_plot_win_loss_record
  | Team_get_team_summary

fun team_effect :: "env \<Rightarrow> team_call \<Rightarrow> TeamStatsAnalyzer \<Rightarrow> TeamStatsAnalyzer" where
  "team_effect e (Team_fetch_league_standings season st) self =
     snd (fetch_league_standings e self season st)"
| "team_effect e (Team_fetch_team_game_log n season st) self =
     snd (fetch_team_game_log e self n season st)"
| "team_effect e (Team_get_team_id n) self = self"
| "team_effect e (Team_plot_team_performance cs) self = self"
| "team_effect e Team_plot_win_loss_record self = self"
| "team_effect e Team_get_team_summary self = self"

fun team_run :: "(env \<times> team_call) list \<Rightarrow> TeamStatsAnalyzer \<Rightarrow> TeamStatsAnalyzer" where
  "team_run [] self = self"
| "team_run ((e, c) # cs) self = team_run cs (team_effect e c self)"

text \<open>The number of dataframe-valued attributes that are not None.\<close>

definition cached :: "dataframe option \<Rightarrow> nat" where
  "cached x = (case x of None \<Rightarrow> 0 | Some df \<Rightarrow> 1)"

definition shot_cached :: "ShotChartAnalyzer \<Rightarrow> nat" where
  "shot_cached self = cached (shot_data self)"

definition player_cached :: "PlayerStatsAnalyzer \<Rightarrow> nat" where
  "player_cached self = cached (career_stats self) + cached (PlayerStatsAnalyzer.game_log self)"

definition team_cached :: "TeamStatsAnalyzer \<Rightarrow> nat" where
  "team_cached self = cached (team_stats self) + cached (TeamStatsAnalyzer.game_log self)"

section \<open>Predicates on rows used in the statements\<close>

text \<open>The cached frame is None or has no row.\<close>

definition missing :: "dataframe option \<Rightarrow> bool" where
  "missing x = (case x of None \<Rightarrow> True | Some df \<Rightarrow> df_len df = 0)"


definition shot_made :: "row \<Rightarrow> bool" where
  "shot_made r = cell_eq_int (r ''SHOT_MADE_FLAG'') 1"

definition shot_missed :: "row \<Rightarrow> bool" where
  "shot_missed r = cell_eq_int (r ''SHOT_MADE_FLAG'') 0"

definition shot_type_is :: "string \<Rightarrow> row \<Rightarrow> bool" where
  "shot_type_is t r = cell_eq_str (r ''SHOT_TYPE'') t"

definition wl_is :: "string \<Rightarrow> row \<Rightarrow> bool" where
  "wl_is t r = cell_eq_str (r ''WL'') t"

text \<open>A column that is present and holds numbers only.\<close>

definition numeric_column :: "dataframe \<Rightarrow> string \<Rightarrow> bool" where
  "numeric_column df c =
     (c \<in> set (columns df) \<and> \<not> list_ex (\<lambda>r. cell_is_str (r c)) (rows df))"

text \<open>
  The columns \<^verbatim>\<open>get_team_summary\<close> reads: \<^verbatim>\<open>WL\<close>, six columns of numbers, and
  \<^verbatim>\<open>OPP_PTS\<close>, which may be absent.
\<close>

definition team_log_columns :: "dataframe \<Rightarrow> bool" where
  "team_log_columns df =
     (''WL'' \<in> set (columns df) \<and>
      list_all (numeric_column df) [''PTS'', ''FG_PCT'', ''FG3_PCT'', ''FT_PCT'', ''REB'', ''AST''] \<and>
      \<not> list_ex cell_is_str (df_get df ''OPP_PTS'' [IntV 0]))"

text \<open>No character of the identifier is whitespace (a newline is whitespace).\<close>

definition no_whitespace :: "string \<Rightarrow> bool" where
  "no_whitespace s = list_all (\<lambda>c. \<not> is_space c) s"

section \<open>An example provider and example frames\<close>

text \<open>
  The identifiers are those of the repository's tests: LeBron James is player 2544 and
  the Los Angeles Lakers are team 1610612747.
\<close>

definition example_shots :: dataframe where
  "example_shots =
     \<lparr>columns = [''SHOT_MADE_FLAG'', ''SHOT_TYPE'', ''LOC_X'', ''LOC_Y''],
      rows =
        [row_of [(''SHOT_MADE_FLAG'', IntV 1), (''SHOT_TYPE'', StrV ''3PT Field Goal''),
                 (''LOC_X'', IntV 230), (''LOC_Y'', IntV 50)],
         row_of [(''SHOT_MADE_FLAG'', IntV 0), (''SHOT_TYPE'', StrV ''2PT Field Goal''),
                 (''LOC_X'', IntV (- 10)), (''LOC_Y'', IntV 20)],
         row_of [(''SHOT_MADE_FLAG'', IntV 1), (''SHOT_TYPE'', StrV ''2PT Field Goal''),
                 (''LOC_X'', IntV 5), (''LOC_Y'', IntV 8)],
         row_of [(''SHOT_MADE_FLAG'', IntV 0), (''SHOT_TYPE'', StrV ''2PT Field Goal''),
                 (''LOC_X'', IntV 40), (''LOC_Y'', IntV 60)]]\<rparr>"

text \<open>A frame with the shot columns and no row: a season without a shot attempt.\<close>

definition no_shots :: dataframe where
  "no_shots = \<lparr>columns = [''SHOT_MADE_FLAG'', ''SHOT_TYPE'', ''LOC_X'', ''LOC_Y''], rows = []\<rparr>"

definition example_game :: "string \<Rightarrow> int \<Rightarrow> row" where
  "example_game wl pts =
     row_of [(''WL'', StrV wl), (''PTS'', IntV pts), (''FG_PCT'', FloatV (1 / 2)),
             (''FG3_PCT'', FloatV (1 / 4)), (''FT_PCT'', FloatV (3 / 4)),
             (''REB'', IntV 40), (''AST'', IntV 20)]"

definition log_columns :: "string list" where
  "log_columns = [''WL'', ''PTS'', ''FG_PCT'', ''FG3_PCT'', ''FT_PCT'', ''REB'', ''AST'']"

text \<open>Newest game first, as the endpoint lists them.\<close>

definition example_log :: dataframe where
  "example_log =
     \<lparr>columns = log_columns,
      rows = [example_game ''W'' 110, example_game ''L'' 90, example_game ''W'' 100]\<rparr>"

text \<open>A log whose newest game has no winner yet: its \<^verbatim>\<open>WL\<close> is neither W nor L.\<close>

definition open_log :: dataframe where
  "open_log =
     \<lparr>columns = log_columns,
      rows = [example_game [] 0, example_game ''L'' 90, example_game ''W'' 100]\<rparr>"

definition example_career :: dataframe where
  "example_career =
     \<lparr>columns = [''SEASON_ID'', ''PTS''],
      rows = [row_of [(''SEASON_ID'', StrV ''2022-23''), (''PTS'', FloatV 28)],
              row_of [(''SEASON_ID'', StrV ''2023-24''), (''PTS'', FloatV 25)]]\<rparr>"

definition example_env :: env where
  "example_env =
     \<lparr>find_players_by_full_name =
        (\<lambda>n. if n = ''LeBron James''
              then [\<lparr>entry_id = 2544, full_name = ''LeBron James''\<rparr>] else []),
      find_teams_by_full_name =
        (\<lambda>n. if n = ''Los Angeles Lakers''
              then [\<lparr>entry_id = 1610612747, full_name = ''Los Angeles Lakers''\<rparr>] else []),
      find_team_by_abbreviation =
        (\<lambda>n. if n = ''LAL''
              then Some \<lparr>entry_id = 1610612747, full_name = ''Los Angeles Lakers''\<rparr> else None),
      ShotChartDetail = (\<lambda>team pid season st measure. Inr [example_shots]),
      CommonPlayerInfo = (\<lambda>pid. Inr [example_career]),
      PlayerCareerStats = (\<lambda>pid mode. Inr [example_career]),
      PlayerGameLog = (\<lambda>pid season st. Inr [example_log]),
      LeagueDashTeamStats = (\<lambda>season st mode. Inr [example_log]),
      TeamGameLog = (\<lambda>tid season st. Inr [example_log])\<rparr>"

text \<open>
  A provider that resolves the same names and whose endpoints all fail on a response that
  is not JSON.
\<close>

definition failing_env :: env where
  "failing_env =
     example_env
       \<lparr>ShotChartDetail :=
          (\<lambda>team pid season st measure. Inl (JSONDecodeError ''Expecting value: line 1 column 1 (char 0)'')),
        CommonPlayerInfo := (\<lambda>pid. Inl (JSONDecodeError ''Expecting value: line 1 column 1 (char 0)'')),
        PlayerCareerStats :=
          (\<lambda>pid mode. Inl (JSONDecodeError ''Expecting value: line 1 column 1 (char 0)'')),
        PlayerGameLog :=
          (\<lambda>pid season st. Inl (JSONDecodeError ''Expecting value: line 1 column 1 (char 0)'')),
        LeagueDashTeamStats :=
          (\<lambda>season st mode. Inl (JSONDecodeError ''Expecting value: line 1 column 1 (char 0)'')),
        TeamGameLog :=
          (\<lambda>tid season st. Inl (JSONDecodeError ''Expecting value: line 1 column 1 (char 0)''))\<rparr>"

section \<open>Auxiliary facts\<close>

lemma bindE_Inl [simp]: "bindE (Inl e) f = Inl e" by (simp add: bindE_def)

lemma bindE_Inr [simp]: "bindE (Inr x) f = f x" by (simp add: bindE_def)

lemma mask_filter: "map fst (filter snd (zip xs (map P xs))) = filter P xs"
  by (induction xs) auto

lemma df_where_int_present:
  "c \<in> set (columns df) \<Longrightarrow>
   df_where_int df c k = Inr (df\<lparr>rows := filter (\<lambda>r. cell_eq_int (r c) k) (rows df)\<rparr>)"
  using mask_filter[where P="\<lambda>r. cell_eq_int (r c) k" and xs="rows df"]
  by (simp add: df_where_int_def df_getitem_def df_mask_def comp_def)

lemma df_where_str_present:
  "c \<in> set (columns df) \<Longrightarrow>
   df_where_str df c k = Inr (df\<lparr>rows := filter (\<lambda>r. cell_eq_str (r c) k) (rows df)\<rparr>)"
  using mask_filter[where P="\<lambda>r. cell_eq_str (r c) k" and xs="rows df"]
  by (simp add: df_where_str_def df_getitem_def df_mask_def comp_def)

lemma length_cumsum_from [simp]: "length (cumsum_from acc xs) = length xs"
  by (induction xs arbitrary: acc) auto

lemma nth_cumsum_from:
  "i < length xs \<Longrightarrow> cumsum_from acc xs ! i = acc + sum_list (take (Suc i) xs)"
proof (induction xs arbitrary: acc i)
  case Nil
  then show ?case by simp
next
  case (Cons x xs)
  show ?case
  proof (cases i)
    case 0
    then show ?thesis by simp
  next
    case (Suc j)
    with Cons.prems have "j < length xs" by simp
    from Cons.IH[OF this, of "acc + x"] Suc show ?thesis by simp
  qed
qed

lemma sum_list_complement:
  "sum_list (map (\<lambda>w. 1 - w) (ys :: int list)) = int (length ys) - sum_list ys"
  by (induction ys) auto

lemma sum_list_indicator:
  "sum_list (map (\<lambda>r. if P r then 1 else 0) xs) = int (length (filter P xs))"
  by (induction xs) auto

lemma series_mean_numbers:
  "\<not> list_ex cell_is_str xs \<Longrightarrow> \<exists>v. series_mean xs = Inr v"
  by (simp add: series_mean_def)

lemma col_mean_numeric:
  assumes "numeric_column df c"
  shows "\<exists>v. col_mean df c = Inr v"
proof -
  from assms have "\<not> list_ex cell_is_str (map (\<lambda>r. r c) (rows df))"
    by (simp add: numeric_column_def list_ex_iff)
  from series_mean_numbers[OF this] assms show ?thesis
    by (simp add: col_mean_def df_getitem_def numeric_column_def)
qed

lemma filter_disjoint_length:
  assumes "\<And>x. \<not> (P x \<and> Q x)"
  shows "length (filter P xs) + length (filter Q xs) = length (filter (\<lambda>x. P x \<or> Q x) xs)"
  using assms by (induction xs) auto

lemma wl_disjoint: "\<not> (wl_is ''W'' r \<and> wl_is ''L'' r)"
  by (cases "r ''WL''") (auto simp: wl_is_def)

lemma wins_losses_less:
  assumes "list_ex (\<lambda>r. \<not> wl_is ''W'' r \<and> \<not> wl_is ''L'' r) xs"
  shows "length (filter (wl_is ''W'') xs) + length (filter (wl_is ''L'') xs) < length xs"
proof -
  from assms obtain r where r: "r \<in> set xs" "\<not> (wl_is ''W'' r \<or> wl_is ''L'' r)"
    by (auto simp: list_ex_iff)
  have "length (filter (\<lambda>x. wl_is ''W'' x \<or> wl_is ''L'' x) xs) < length xs"
    using r length_filter_less[of r xs "\<lambda>x. wl_is ''W'' x \<or> wl_is ''L'' x"] by simp
  then show ?thesis
    by (simp add: filter_disjoint_length[of "wl_is ''W''" "wl_is ''L''", OF wl_disjoint])
qed

lemma is_space_LF [simp]: "is_space LF"
  by (simp add: is_space_def LF_def)

lemma is_space_CR [simp]: "is_space CR"
  by (simp add: is_space_def CR_def)

lemma universal_newlines_no_CR:
  "CR \<notin> set s \<Longrightarrow> universal_newlines s = s"
  by (induction s rule: universal_newlines.induct) auto

lemma file_lines_from_line:
  "LF \<notin> set g \<Longrightarrow>
   file_lines_from cur (g @ LF # rest) = (cur @ g @ [LF]) # file_lines_from [] rest"
  by (induction g arbitrary: cur) auto

lemma file_lines_from_written:
  "list_all (\<lambda>g. LF \<notin> set g) ids \<Longrightarrow>
   file_lines_from [] (concat (map (\<lambda>gid. gid @ [LF]) ids)) = map (\<lambda>gid. gid @ [LF]) ids"
  by (induction ids) (simp_all add: file_lines_from_line)

lemma no_whitespace_set: "no_whitespace g \<Longrightarrow> c \<in> set g \<Longrightarrow> \<not> is_space c"
  by (simp add: no_whitespace_def list_all_iff)

lemma dropWhile_none: "list_all (\<lambda>c. \<not> P c) xs \<Longrightarrow> dropWhile P xs = xs"
  by (cases xs) auto

lemma strip_written_line:
  assumes "no_whitespace g"
  shows "strip (g @ [LF]) = g"
proof (cases g)
  case Nil
  then show ?thesis by (simp add: strip_def)
next
  case (Cons c cs)
  with assms have c: "\<not> is_space c" by (simp add: no_whitespace_def)
  have front: "dropWhile is_space (g @ [LF]) = g @ [LF]"
    using Cons c by simp
  have "list_all (\<lambda>c. \<not> is_space c) (rev g)"
    using assms by (simp add: no_whitespace_def)
  then have rear: "dropWhile is_space (rev g) = rev g"
    by (rule dropWhile_none)
  show ?thesis
    by (simp add: strip_def front rear)
qed

lemma cached_le_1: "cached x \<le> 1"
  by (simp add: cached_def split: option.splits)

lemma df_where_int_absent:
  "c \<notin> set (columns df) \<Longrightarrow> df_where_int df c k = Inl (KeyError c)"
  by (simp add: df_where_int_def df_getitem_def)

lemma df_getitem_filtered:
  "df_getitem (df\<lparr>rows := xs\<rparr>) c
     = (if c \<in> set (columns df) then Inr (map (\<lambda>r. r c) xs) else Inl (KeyError c))"
  by (simp add: df_getitem_def)

lemma shot_chart_figure_cached:
  assumes "shot_data self = Some df"
  shows "shot_chart_figure self n season st title =
    (if ''SHOT_MADE_FLAG'' \<notin> set (columns df) then Inl (KeyError ''SHOT_MADE_FLAG'')
     else if ''LOC_X'' \<notin> set (columns df) then Inl (KeyError ''LOC_X'')
     else if ''LOC_Y'' \<notin> set (columns df) then Inl (KeyError ''LOC_Y'')
     else Inr \<lparr>fig_artists =
                 [Scatter ''Missed'' (map (\<lambda>r. r ''LOC_X'') (filter shot_missed (rows df)))
                                     (map (\<lambda>r. r ''LOC_Y'') (filter shot_missed (rows df))),
                  Scatter ''Made'' (map (\<lambda>r. r ''LOC_X'') (filter shot_made (rows df)))
                                   (map (\<lambda>r. r ''LOC_Y'') (filter shot_made (rows df)))],
               fig_title =
                 (case title of
                    Some t \<Rightarrow> Title t
                  | None \<Rightarrow> ShotChartTitle n season st
                      (percentage_or_zero (length (filter shot_made (rows df)))
                         (length (rows df))))\<rparr>)"
  using assms
  by (simp add: shot_chart_figure_def df_where_int_present df_where_int_absent
      df_getitem_filtered df_len_def shot_made_def[abs_def] shot_missed_def[abs_def]
      split: option.splits)

lemma example_chart:
  "shot_chart_figure \<lparr>shot_data = Some example_shots\<rparr> n season st None
     = Inr \<lparr>fig_artists =
              [Scatter ''Missed'' [IntV (- 10), IntV 40] [IntV 20, IntV 60],
               Scatter ''Made'' [IntV 230, IntV 5] [IntV 50, IntV 8]],
            fig_title = ShotChartTitle n season st (FloatV 50)\<rparr>"
proof -
  have s: "shot_data \<lparr>shot_data = Some example_shots\<rparr> = Some example_shots" by simp
  have cols: "columns example_shots = [''SHOT_MADE_FLAG'', ''SHOT_TYPE'', ''LOC_X'', ''LOC_Y'']"
    by (simp add: example_shots_def)
  have missed: "map (\<lambda>r. r ''LOC_X'') (filter shot_missed (rows example_shots)) = [IntV (- 10), IntV 40]"
    "map (\<lambda>r. r ''LOC_Y'') (filter shot_missed (rows example_shots)) = [IntV 20, IntV 60]"
    by (simp_all add: example_shots_def shot_missed_def row_of_def)
  have made: "map (\<lambda>r. r ''LOC_X'') (filter shot_made (rows example_shots)) = [IntV 230, IntV 5]"
    "map (\<lambda>r. r ''LOC_Y'') (filter shot_made (rows example_shots)) = [IntV 50, IntV 8]"
    "length (filter shot_made (rows example_shots)) = 2"
    by (simp_all add: example_shots_def shot_made_def row_of_def)
  have len: "length (rows example_shots) = 4"
    by (simp add: example_shots_def)
  show ?thesis
    unfolding shot_chart_figure_cached[OF s] made missed len cols
    by (simp add: percentage_or_zero_def)
qed

lemma example_runs_cache_two:
  "player_cached
     (player_run
        [(example_env, Player_fetch_career_stats ''LeBron James'' ''PerGame''),
         (example_env, Player_fetch_game_log ''LeBron James'' ''2023-24'' ''Regular Season'')]
        player_init) = 2"
  "team_cached
     (team_run
        [(example_env, Team_fetch_league_standings ''2023-24'' ''Regular Season''),
         (example_env, Team_fetch_team_game_log ''LAL'' ''2023-24'' ''Regular Season'')]
        team_init) = 2"
proof -
  have pid: "get_player_id example_env ''LeBron James'' = Some 2544"
    by (simp add: get_player_id_def example_env_def)
  have tid: "get_team_id example_env ''LAL'' = Some 1610612747"
    by (simp add: get_team_id_def example_env_def)
  have ends: "PlayerCareerStats example_env 2544 ''PerGame'' = Inr [example_career]"
    "PlayerGameLog example_env 2544 ''2023-24'' ''Regular Season'' = Inr [example_log]"
    "LeagueDashTeamStats example_env ''2023-24'' ''Regular Season'' ''PerGame'' = Inr [example_log]"
    "TeamGameLog example_env 1610612747 ''2023-24'' ''Regular Season'' = Inr [example_log]"
    by (simp_all add: example_env_def)
  show "player_cached
     (player_run
        [(example_env, Player_fetch_career_stats ''LeBron James'' ''PerGame''),
         (example_env, Player_fetch_game_log ''LeBron James'' ''2023-24'' ''Regular Season'')]
        player_init) = 2"
    by (simp add: player_cached_def cached_def player_init_def
        fetch_career_stats_def fetch_game_log_def pid ends first_frame_def)
  show "team_cached
     (team_run
        [(example_env, Team_fetch_league_standings ''2023-24'' ''Regular Season''),
         (example_env, Team_fetch_team_game_log ''LAL'' ''2023-24'' ''Regular Season'')]
        team_init) = 2"
    by (simp add: team_cached_def cached_def team_init_def
        fetch_league_standings_def fetch_team_game_log_def tid ends first_frame_def)
qed

lemma player_effect_frames:
  "(career_stats (player_effect e c p) = career_stats p
      \<and> PlayerStatsAnalyzer.game_log (player_effect e c p) = PlayerStatsAnalyzer.game_log p)
   \<or> (\<exists>df. career_stats (player_effect e c p) = Some df
      \<and> PlayerStatsAnalyzer.game_log (player_effect e c p) = PlayerStatsAnalyzer.game_log p)
   \<or> (\<exists>df. PlayerStatsAnalyzer.game_log (player_effect e c p) = Some df
      \<and> career_stats (player_effect e c p) = career_stats p)"
  by (cases c)
     (auto simp: fetch_player_info_def fetch_career_stats_def fetch_game_log_def Let_def
           split: option.splits sum.splits)

lemma team_effect_frames:
  "(team_stats (team_effect e c t) = team_stats t
      \<and> TeamStatsAnalyzer.game_log (team_effect e c t) = TeamStatsAnalyzer.game_log t)
   \<or> (\<exists>df. team_stats (team_effect e c t) = Some df
      \<and> TeamStatsAnalyzer.game_log (team_effect e c t) = TeamStatsAnalyzer.game_log t)
   \<or> (\<exists>df. TeamStatsAnalyzer.game_log (team_effect e c t) = Some df
      \<and> team_stats (team_effect e c t) = team_stats t)"
  by (cases c)
     (auto simp: fetch_league_standings_def fetch_team_game_log_def Let_def
           split: option.splits sum.splits)

section \<open>The claims\<close>

text \<open>
  C1. Each of \<^verbatim>\<open>fetch_shot_data\<close>, \<^verbatim>\<open>fetch_career_stats\<close>, \<^verbatim>\<open>fetch_game_log\<close> and
  \<^verbatim>\<open>fetch_team_game_log\<close> raises the ValueError naming the unresolved name when the
  lookup returns None. When the lookup returns an identifier the resolution step raises
  nothing: the outcome of the fetch is the outcome of the endpoint call, whatever that is.
  So the fetch raises that error exactly when the lookup returns None, as long as the
  endpoint call does not itself raise a ValueError with the same text. (An endpoint can
  raise a ValueError with a resolved name, for instance \<^verbatim>\<open>json.JSONDecodeError\<close>.)
\<close>

theorem fetch_raises_iff_unresolved:
  "(get_player_id e n = None \<longrightarrow>
       fst (fetch_shot_data e s n season st) = Inl (ValueError (not_found ''Player'' n))
     \<and> fst (fetch_career_stats e p n per_mode) = Inl (ValueError (not_found ''Player'' n))
     \<and> fst (fetch_game_log e p n season st) = Inl (ValueError (not_found ''Player'' n)))
   \<and> (\<forall>pid. get_player_id e n = Some pid \<longrightarrow>
       fst (fetch_shot_data e s n season st)
         = first_frame (ShotChartDetail e 0 pid season st ''FGA'')
     \<and> fst (fetch_career_stats e p n per_mode) = first_frame (PlayerCareerStats e pid per_mode)
     \<and> fst (fetch_game_log e p n season st) = first_frame (PlayerGameLog e pid season st))
   \<and> (get_team_id e tn = None \<longrightarrow>
       fst (fetch_team_game_log e t tn season st) = Inl (ValueError (not_found ''Team'' tn)))
   \<and> (\<forall>tid. get_team_id e tn = Some tid \<longrightarrow>
       fst (fetch_team_game_log e t tn season st) = first_frame (TeamGameLog e tid season st))
   \<and> ((\<forall>pid. first_frame (ShotChartDetail e 0 pid season st ''FGA'')
               \<noteq> Inl (ValueError (not_found ''Player'' n))) \<longrightarrow>
       (fst (fetch_shot_data e s n season st) = Inl (ValueError (not_found ''Player'' n))
          \<longleftrightarrow> get_player_id e n = None))
   \<and> ((\<forall>pid. first_frame (PlayerCareerStats e pid per_mode)
               \<noteq> Inl (ValueError (not_found ''Player'' n))) \<longrightarrow>
       (fst (fetch_career_stats e p n per_mode) = Inl (ValueError (not_found ''Player'' n))
          \<longleftrightarrow> get_player_id e n = None))
   \<and> ((\<forall>pid. first_frame (PlayerGameLog e pid season st)
               \<noteq> Inl (ValueError (not_found ''Player'' n))) \<longrightarrow>
       (fst (fetch_game_log e p n season st) = Inl (ValueError (not_found ''Player'' n))
          \<longleftrightarrow> get_player_id e n = None))
   \<and> ((\<forall>tid. first_frame (TeamGameLog e tid season st)
               \<noteq> Inl (ValueError (not_found ''Team'' tn))) \<longrightarrow>
       (fst (fetch_team_game_log e t tn season st) = Inl (ValueError (not_found ''Team'' tn))
          \<longleftrightarrow> get_team_id e tn = None))"
proof -
  have shot: "fst (fetch_shot_data e s n season st) =
      (case get_player_id e n of
         None \<Rightarrow> Inl (ValueError (not_found ''Player'' n))
       | Some pid \<Rightarrow> first_frame (ShotChartDetail e 0 pid season st ''FGA''))"
    by (simp add: fetch_shot_data_def split: option.splits sum.splits)
  have career: "fst (fetch_career_stats e p n per_mode) =
      (case get_player_id e n of
         None \<Rightarrow> Inl (ValueError (not_found ''Player'' n))
       | Some pid \<Rightarrow> first_frame (PlayerCareerStats e pid per_mode))"
    by (simp add: fetch_career_stats_def Let_def split: option.splits sum.splits)
  have glog: "fst (fetch_game_log e p n season st) =
      (case get_player_id e n of
         None \<Rightarrow> Inl (ValueError (not_found ''Player'' n))
       | Some pid \<Rightarrow> first_frame (PlayerGameLog e pid season st))"
    by (simp add: fetch_game_log_def Let_def split: option.splits sum.splits)
  have team: "fst (fetch_team_game_log e t tn season st) =
      (case get_team_id e tn of
         None \<Rightarrow> Inl (ValueError (not_found ''Team'' tn))
       | Some tid \<Rightarrow> first_frame (TeamGameLog e tid season st))"
    by (simp add: fetch_team_game_log_def Let_def split: option.splits sum.splits)
  show ?thesis
    unfolding shot career glog team
    by (auto split: option.splits)
qed

theorem fetch_raises_iff_unresolved_witness:
  "fst (fetch_shot_data example_env shot_init ''Not A Real Player'' ''2023-24'' ''Regular Season'')
     = Inl (ValueError (not_found ''Player'' ''Not A Real Player''))
   \<and> not_found ''Player'' ''Not A Real Player'' = ''Player 'Not A Real Player' not found''
   \<and> fst (fetch_shot_data example_env shot_init ''LeBron James'' ''2023-24'' ''Regular Season'')
     = Inr example_shots
   \<and> fst (fetch_shot_data failing_env shot_init ''LeBron James'' ''2023-24'' ''Regular Season'')
     = Inl (JSONDecodeError ''Expecting value: line 1 column 1 (char 0)'')
   \<and> is_ValueError (JSONDecodeError ''Expecting value: line 1 column 1 (char 0)'')
   \<and> fst (fetch_shot_data failing_env shot_init ''LeBron James'' ''2023-24'' ''Regular Season'')
     \<noteq> Inl (ValueError (not_found ''Player'' ''LeBron James''))
   \<and> fst (fetch_team_game_log example_env team_init ''Not A Real Team'' ''2023-24'' ''Regular Season'')
     = Inl (ValueError (not_found ''Team'' ''Not A Real Team''))
   \<and> fst (fetch_team_game_log example_env team_init ''LAL'' ''2023-24'' ''Regular Season'')
     = Inr example_log"
proof -
  have none: "get_player_id example_env ''Not A Real Player'' = None"
    "get_team_id example_env ''Not A Real Team'' = None"
    by (simp_all add: get_player_id_def get_team_id_def example_env_def)
  have some: "get_player_id example_env ''LeBron James'' = Some 2544"
    "get_player_id failing_env ''LeBron James'' = Some 2544"
    "get_team_id example_env ''LAL'' = Some 1610612747"
    by (simp_all add: get_player_id_def get_team_id_def failing_env_def example_env_def)
  have ends: "first_frame (ShotChartDetail example_env 0 2544 ''2023-24'' ''Regular Season'' ''FGA'')
        = Inr example_shots"
    "first_frame (TeamGameLog example_env 1610612747 ''2023-24'' ''Regular Season'') = Inr example_log"
    "\<And>pid. first_frame (ShotChartDetail failing_env 0 pid ''2023-24'' ''Regular Season'' ''FGA'')
        = Inl (JSONDecodeError ''Expecting value: line 1 column 1 (char 0)'')"
    by (simp_all add: first_frame_def failing_env_def example_env_def)
  have nf: "not_found ''Player'' ''Not A Real Player'' = ''Player 'Not A Real Player' not found''"
    by (simp add: not_found_def)
  note a = fetch_raises_iff_unresolved[of example_env "''Not A Real Player''" shot_init
      "''2023-24''" "''Regular Season''" player_init "''PerGame''" "''Not A Real Team''" team_init]
  note b = fetch_raises_iff_unresolved[of example_env "''LeBron James''" shot_init
      "''2023-24''" "''Regular Season''" player_init "''PerGame''" "''LAL''" team_init]
  note c = fetch_raises_iff_unresolved[of failing_env "''LeBron James''" shot_init
      "''2023-24''" "''Regular Season''" player_init "''PerGame''" "''LAL''" team_init]
  from a none have 1: "fst (fetch_shot_data example_env shot_init ''Not A Real Player''
      ''2023-24'' ''Regular Season'') = Inl (ValueError (not_found ''Player'' ''Not A Real Player''))"
    and 6: "fst (fetch_team_game_log example_env team_init ''Not A Real Team''
      ''2023-24'' ''Regular Season'') = Inl (ValueError (not_found ''Team'' ''Not A Real Team''))"
    by blast+
  from b some(1,3) ends(1,2) have 2: "fst (fetch_shot_data example_env shot_init ''LeBron James''
      ''2023-24'' ''Regular Season'') = Inr example_shots"
    and 7: "fst (fetch_team_game_log example_env team_init ''LAL''
      ''2023-24'' ''Regular Season'') = Inr example_log"
    by simp_all
  from c some(2) ends(3) have 3: "fst (fetch_shot_data failing_env shot_init ''LeBron James''
      ''2023-24'' ''Regular Season'') = Inl (JSONDecodeError ''Expecting value: line 1 column 1 (char 0)'')"
    by simp
  have proviso: "\<forall>pid. first_frame (ShotChartDetail failing_env 0 pid ''2023-24'' ''Regular Season'' ''FGA'')
      \<noteq> Inl (ValueError (not_found ''Player'' ''LeBron James''))"
    by (simp add: ends(3))
  from c proviso some(2) have 5: "fst (fetch_shot_data failing_env shot_init ''LeBron James''
      ''2023-24'' ''Regular Season'') \<noteq> Inl (ValueError (not_found ''Player'' ''LeBron James''))"
    by simp
  have 4: "is_ValueError (JSONDecodeError ''Expecting value: line 1 column 1 (char 0)'')"
    by simp
  from 1 nf 2 3 4 5 6 7 show ?thesis by blast
qed

text \<open>
  C3. On a loaded shot frame with at least one row (and the columns
  \<^verbatim>\<open>SHOT_MADE_FLAG\<close> and \<^verbatim>\<open>SHOT_TYPE\<close> of the endpoint), \<^verbatim>\<open>get_shot_statistics\<close>
  returns a dictionary where \<^verbatim>\<open>total_shots\<close> is the number of rows,
  \<^verbatim>\<open>made_shots\<close> counts the rows whose flag equals 1, \<^verbatim>\<open>missed_shots\<close> is the
  difference (so made plus missed is the total), \<^verbatim>\<open>fg_percentage\<close> is made over total
  times 100, and the three keys of the three-point (two-point) block are present exactly
  when some row has that shot type, with the percentage made over attempts times 100.
\<close>

theorem get_shot_statistics_counts:
  assumes "shot_data self = Some df" and "rows df \<noteq> []"
    and "''SHOT_MADE_FLAG'' \<in> set (columns df)" and "''SHOT_TYPE'' \<in> set (columns df)"
  shows "\<exists>stats. get_shot_statistics self = Inr stats
    \<and> stats ''total_shots'' = Some (IntV (int (length (rows df))))
    \<and> stats ''made_shots'' = Some (IntV (int (length (filter shot_made (rows df)))))
    \<and> stats ''missed_shots'' =
        Some (IntV (int (length (rows df)) - int (length (filter shot_made (rows df)))))
    \<and> stats ''fg_percentage'' =
        Some (FloatV (real (length (filter shot_made (rows df))) / real (length (rows df)) * 100))
    \<and> (if list_ex (shot_type_is ''3PT Field Goal'') (rows df)
       then stats ''three_pt_attempts'' =
              Some (IntV (int (length (filter (shot_type_is ''3PT Field Goal'') (rows df)))))
          \<and> stats ''three_pt_made'' =
              Some (IntV (int (length (filter shot_made
                      (filter (shot_type_is ''3PT Field Goal'') (rows df))))))
          \<and> stats ''three_pt_percentage'' =
              Some (FloatV (real (length (filter shot_made
                              (filter (shot_type_is ''3PT Field Goal'') (rows df))))
                            / real (length (filter (shot_type_is ''3PT Field Goal'') (rows df)))
                            * 100))
       else stats ''three_pt_attempts'' = None \<and> stats ''three_pt_made'' = None
          \<and> stats ''three_pt_percentage'' = None)
    \<and> (if list_ex (shot_type_is ''2PT Field Goal'') (rows df)
       then stats ''two_pt_attempts'' =
              Some (IntV (int (length (filter (shot_type_is ''2PT Field Goal'') (rows df)))))
          \<and> stats ''two_pt_made'' =
              Some (IntV (int (length (filter shot_made
                      (filter (shot_type_is ''2PT Field Goal'') (rows df))))))
          \<and> stats ''two_pt_percentage'' =
              Some (FloatV (real (length (filter shot_made
                              (filter (shot_type_is ''2PT Field Goal'') (rows df))))
                            / real (length (filter (shot_type_is ''2PT Field Goal'') (rows df)))
                            * 100))
       else stats ''two_pt_attempts'' = None \<and> stats ''two_pt_made'' = None
          \<and> stats ''two_pt_percentage'' = None)"
proof -
  let ?is3 = "shot_type_is ''3PT Field Goal''" and ?is2 = "shot_type_is ''2PT Field Goal''"
  have ex3: "list_ex ?is3 (rows df) \<longleftrightarrow> filter ?is3 (rows df) \<noteq> []"
    by (simp add: list_ex_iff filter_empty_conv)
  have ex2: "list_ex ?is2 (rows df) \<longleftrightarrow> filter ?is2 (rows df) \<noteq> []"
    by (simp add: list_ex_iff filter_empty_conv)
  show ?thesis
    using assms
    unfolding get_shot_statistics_def ex3 ex2
    by (simp add: df_len_def df_where_int_present df_where_str_present percentage_or_zero_def
        Let_def shot_made_def[abs_def] shot_type_is_def[abs_def])
qed

theorem get_shot_statistics_counts_witness:
  "\<exists>stats. get_shot_statistics \<lparr>shot_data = Some example_shots\<rparr> = Inr stats
     \<and> stats ''total_shots'' = Some (IntV 4)
     \<and> stats ''made_shots'' = Some (IntV 2)
     \<and> stats ''missed_shots'' = Some (IntV 2)
     \<and> stats ''fg_percentage'' = Some (FloatV 50)
     \<and> stats ''three_pt_attempts'' = Some (IntV 1)
     \<and> stats ''three_pt_made'' = Some (IntV 1)
     \<and> stats ''three_pt_percentage'' = Some (FloatV 100)
     \<and> stats ''two_pt_attempts'' = Some (IntV 3)
     \<and> stats ''two_pt_made'' = Some (IntV 1)
     \<and> stats ''two_pt_percentage'' = Some (FloatV (100 / 3))"
proof -
  have r: "rows example_shots \<noteq> []"
    and c: "''SHOT_MADE_FLAG'' \<in> set (columns example_shots)"
      "''SHOT_TYPE'' \<in> set (columns example_shots)"
    by (simp_all add: example_shots_def)
  have made: "length (filter shot_made (rows example_shots)) = 2"
    by (simp add: example_shots_def shot_made_def row_of_def)
  have three: "length (filter (shot_type_is ''3PT Field Goal'') (rows example_shots)) = 1"
    "list_ex (shot_type_is ''3PT Field Goal'') (rows example_shots)"
    "length (filter shot_made (filter (shot_type_is ''3PT Field Goal'') (rows example_shots))) = 1"
    by (simp_all add: example_shots_def shot_type_is_def shot_made_def row_of_def)
  have two: "length (filter (shot_type_is ''2PT Field Goal'') (rows example_shots)) = 3"
    "list_ex (shot_type_is ''2PT Field Goal'') (rows example_shots)"
    "length (filter shot_made (filter (shot_type_is ''2PT Field Goal'') (rows example_shots))) = 1"
    by (simp_all add: example_shots_def shot_type_is_def shot_made_def row_of_def)
  have len: "length (rows example_shots) = 4"
    by (simp add: example_shots_def)
  have s: "shot_data \<lparr>shot_data = Some example_shots\<rparr> = Some example_shots"
    by simp
  from get_shot_statistics_counts[OF s r c]
  show ?thesis
    unfolding made three(1,3) two(1,3) len if_P[OF three(2)] if_P[OF two(2)]
    by simp
qed

text \<open>
  C4. On every game log with at least one row and a \<^verbatim>\<open>WL\<close> column (on any other the
  method raises), \<^verbatim>\<open>plot_win_loss_record\<close> computes the cumulative sums over the log
  reversed into chronological order, \<^verbatim>\<open>IS_WIN\<close> is 1 exactly on the rows whose
  \<^verbatim>\<open>WL\<close> is W and 0 otherwise, and at every position i of the reversed log the
  cumulative wins (the wins among the first i + 1 games) plus the cumulative losses equal
  i + 1. The two plotted lines are these series.
\<close>

theorem win_loss_cumulative:
  assumes "TeamStatsAnalyzer.game_log self = Some df" and "rows df \<noteq> []"
    and "''WL'' \<in> set (columns df)"
  shows "\<exists>is_win wins losses.
      win_loss_columns df = Inr (is_win, wins, losses)
    \<and> plot_win_loss_record self =
        Inr \<lparr>fig_artists = [Line (Some ''Wins'') (df_index (df_reversed df)) (map IntV wins),
                            Line (Some ''Losses'') (df_index (df_reversed df)) (map IntV losses)],
             fig_title = Title (str_of_opt (team_name self) @ '' Win/Loss Record'')\<rparr>
    \<and> is_win = map (\<lambda>r. if wl_is ''W'' r then 1 else 0) (rev (rows df))
    \<and> length wins = length (rows df) \<and> length losses = length (rows df)
    \<and> (\<forall>i < length (rows df).
          wins ! i = int (length (filter (wl_is ''W'') (take (Suc i) (rev (rows df)))))
        \<and> wins ! i + losses ! i = int i + 1)"
proof -
  let ?iw = "map (\<lambda>r. if wl_is ''W'' r then 1 else 0) (rev (rows df)) :: int list"
  have cols: "win_loss_columns df = Inr (?iw, cumsum ?iw, cumsum (map (\<lambda>w. 1 - w) ?iw))"
    using assms(3)
    by (simp add: win_loss_columns_def df_reversed_def df_getitem_def Let_def wl_is_def comp_def rev_map)
  have plot: "plot_win_loss_record self =
        Inr \<lparr>fig_artists = [Line (Some ''Wins'') (df_index (df_reversed df)) (map IntV (cumsum ?iw)),
                            Line (Some ''Losses'') (df_index (df_reversed df))
                              (map IntV (cumsum (map (\<lambda>w. 1 - w) ?iw)))],
             fig_title = Title (str_of_opt (team_name self) @ '' Win/Loss Record'')\<rparr>"
    using assms(1,2) by (simp add: plot_win_loss_record_def cols df_len_def)
  have nth: "cumsum ?iw ! i = int (length (filter (wl_is ''W'') (take (Suc i) (rev (rows df)))))
        \<and> cumsum ?iw ! i + cumsum (map (\<lambda>w. 1 - w) ?iw) ! i = int i + 1"
    if "i < length (rows df)" for i
  proof -
    have w: "cumsum ?iw ! i = sum_list (take (Suc i) ?iw)"
      using that by (simp add: cumsum_def nth_cumsum_from)
    have l: "cumsum (map (\<lambda>w. 1 - w) ?iw) ! i = sum_list (map (\<lambda>w. 1 - w) (take (Suc i) ?iw))"
      using that by (simp add: cumsum_def nth_cumsum_from take_map)
    have len: "length (take (Suc i) ?iw) = Suc i"
      using that by simp
    have "sum_list (take (Suc i) ?iw)
            = int (length (filter (wl_is ''W'') (take (Suc i) (rev (rows df)))))"
      by (simp only: take_map sum_list_indicator)
    with w l len show ?thesis
      by (simp only: sum_list_complement) simp
  qed
  have len: "length (cumsum ?iw) = length (rows df)"
    "length (cumsum (map (\<lambda>w. 1 - w) ?iw)) = length (rows df)"
    by (simp_all add: cumsum_def)
  from cols plot len nth show ?thesis by blast
qed

theorem win_loss_cumulative_witness:
  "\<exists>is_win wins losses.
      win_loss_columns example_log = Inr (is_win, wins, losses)
    \<and> is_win = [1, 0, 1] \<and> wins = [1, 1, 2] \<and> losses = [0, 1, 1]
    \<and> wins ! 2 + losses ! 2 = 3"
proof -
  let ?t = "\<lparr>team_id = None, team_name = None, team_stats = None, game_log = Some example_log\<rparr>"
  have g: "TeamStatsAnalyzer.game_log ?t = Some example_log" by simp
  have r: "rows example_log \<noteq> []" and c: "''WL'' \<in> set (columns example_log)"
    and len: "length (rows example_log) = 3"
    by (simp_all add: example_log_def log_columns_def)
  have cols: "win_loss_columns example_log = Inr ([1, 0, 1], [1, 1, 2], [0, 1, 1])"
    by (simp add: win_loss_columns_def df_reversed_def df_getitem_def example_log_def
        log_columns_def example_game_def row_of_def cumsum_def)
  from win_loss_cumulative[OF g r c] obtain is_win wins losses where
    w: "win_loss_columns example_log = Inr (is_win, wins, losses)"
      "\<forall>i < length (rows example_log). wins ! i + losses ! i = int i + 1"
    by blast
  from w(2) len have "wins ! 2 + losses ! 2 = 3" by simp
  with w(1) cols show ?thesis by simp
qed

text \<open>
  C5. \<^verbatim>\<open>get_team_summary\<close> counts the rows with \<^verbatim>\<open>WL\<close> equal to W and to L and checks
  nothing: on every non-empty log with the columns it reads in which some row has a
  \<^verbatim>\<open>WL\<close> that is neither, it returns normally a summary whose wins plus losses are
  fewer than its games played.
\<close>

theorem team_summary_unchecked:
  assumes "TeamStatsAnalyzer.game_log self = Some df" and "rows df \<noteq> []"
    and "team_log_columns df"
    and "list_ex (\<lambda>r. \<not> wl_is ''W'' r \<and> \<not> wl_is ''L'' r) (rows df)"
  shows "\<exists>summary. get_team_summary self = Inr summary
    \<and> summary ''games_played'' = Some (IntV (int (length (rows df))))
    \<and> summary ''wins'' = Some (IntV (int (length (filter (wl_is ''W'') (rows df)))))
    \<and> summary ''losses'' = Some (IntV (int (length (filter (wl_is ''L'') (rows df)))))
    \<and> int (length (filter (wl_is ''W'') (rows df))) + int (length (filter (wl_is ''L'') (rows df)))
        < int (length (rows df))"
proof -
  from assms(3) have wl: "''WL'' \<in> set (columns df)"
    and num: "numeric_column df ''PTS''" "numeric_column df ''FG_PCT''"
      "numeric_column df ''FG3_PCT''" "numeric_column df ''FT_PCT''"
      "numeric_column df ''REB''" "numeric_column df ''AST''"
    and opp: "\<not> list_ex cell_is_str (df_get df ''OPP_PTS'' [IntV 0])"
    by (simp_all add: team_log_columns_def)
  from num obtain ppg fg fg3 ft reb ast where means:
    "col_mean df ''PTS'' = Inr ppg" "col_mean df ''FG_PCT'' = Inr fg"
    "col_mean df ''FG3_PCT'' = Inr fg3" "col_mean df ''FT_PCT'' = Inr ft"
    "col_mean df ''REB'' = Inr reb" "col_mean df ''AST'' = Inr ast"
    by (meson col_mean_numeric)
  from series_mean_numbers[OF opp] obtain opp_ppg where
    oppm: "series_mean (df_get df ''OPP_PTS'' [IntV 0]) = Inr opp_ppg" by blast
  have less: "int (length (filter (wl_is ''W'') (rows df)))
      + int (length (filter (wl_is ''L'') (rows df))) < int (length (rows df))"
    using wins_losses_less[OF assms(4)] by linarith
  have "get_team_summary self = Inr
      [''games_played'' \<mapsto> IntV (int (length (rows df))),
       ''wins'' \<mapsto> IntV (int (length (filter (wl_is ''W'') (rows df)))),
       ''losses'' \<mapsto> IntV (int (length (filter (wl_is ''L'') (rows df)))),
       ''win_percentage'' \<mapsto>
          percentage_or_zero (length (filter (wl_is ''W'') (rows df))) (length (rows df)),
       ''ppg'' \<mapsto> ppg, ''opp_ppg'' \<mapsto> opp_ppg, ''fg_pct'' \<mapsto> times100 fg,
       ''fg3_pct'' \<mapsto> times100 fg3, ''ft_pct'' \<mapsto> times100 ft,
       ''reb_pg'' \<mapsto> reb, ''ast_pg'' \<mapsto> ast]"
    using assms(1,2) wl
    by (simp add: get_team_summary_def df_len_def df_where_str_present means oppm
        wl_is_def[abs_def] Let_def)
  with less show ?thesis by simp
qed

theorem team_summary_unchecked_witness:
  "\<exists>summary. get_team_summary
       \<lparr>team_id = None, team_name = None, team_stats = None, game_log = Some open_log\<rparr> = Inr summary
     \<and> summary ''games_played'' = Some (IntV 3)
     \<and> summary ''wins'' = Some (IntV 1)
     \<and> summary ''losses'' = Some (IntV 1)"
  using team_summary_unchecked[of
      "\<lparr>team_id = None, team_name = None, team_stats = None, game_log = Some open_log\<rparr>" open_log]
  by (simp add: open_log_def log_columns_def example_game_def row_of_def wl_is_def
      team_log_columns_def numeric_column_def df_get_def)

text \<open>
  C6. Writing a non-empty list of identifiers without whitespace with
  \<^verbatim>\<open>write_to_text\<close> and reading the file back with the loop of \<^verbatim>\<open>NBA_API\<close> gives the
  same list in the same order.
\<close>

theorem game_ids_round_trip:
  assumes "game_ids \<noteq> []" and "list_all no_whitespace game_ids"
  shows "read_games (write_to_text fs ''yesterdays_games.txt'' game_ids) = Inr game_ids"
proof -
  let ?content = "concat (map (\<lambda>gid. gid @ [LF]) game_ids)"
  have nows: "\<And>g c. g \<in> set game_ids \<Longrightarrow> c \<in> set g \<Longrightarrow> \<not> is_space c"
    using assms(2) no_whitespace_set by (auto simp: list_all_iff)
  have "CR \<noteq> LF"
    by (simp add: LF_def CR_def)
  moreover have "\<And>g. g \<in> set game_ids \<Longrightarrow> CR \<notin> set g"
    using nows is_space_CR by blast
  ultimately have noCR: "CR \<notin> set ?content"
    by auto
  have "\<And>g. g \<in> set game_ids \<Longrightarrow> LF \<notin> set g"
    using nows is_space_LF by blast
  then have noLF: "list_all (\<lambda>g. LF \<notin> set g) game_ids"
    by (simp add: list_all_iff)
  have lines: "file_lines ?content = map (\<lambda>gid. gid @ [LF]) game_ids"
    by (simp only: file_lines_def universal_newlines_no_CR[OF noCR] file_lines_from_written[OF noLF])
  have "map strip (map (\<lambda>gid. gid @ [LF]) game_ids) = game_ids"
    using assms(2) by (induction game_ids) (simp_all add: strip_written_line)
  with lines assms(1) show ?thesis
    by (simp add: read_games_def write_to_text_def)
qed

theorem game_ids_round_trip_witness:
  "read_games (write_to_text Map.empty ''yesterdays_games.txt'' [''0022300001'', ''0022300002''])
     = Inr [''0022300001'', ''0022300002'']"
  by (rule game_ids_round_trip) (simp_all add: no_whitespace_def is_space_def)

text \<open>
  C7. A successful \<^verbatim>\<open>fetch_career_stats\<close> replaces \<^verbatim>\<open>career_stats\<close>,
  \<^verbatim>\<open>player_id\<close> and \<^verbatim>\<open>player_name\<close> and leaves \<^verbatim>\<open>game_log\<close> as it was; a
  successful \<^verbatim>\<open>fetch_game_log\<close> replaces \<^verbatim>\<open>game_log\<close> and leaves
  \<^verbatim>\<open>career_stats\<close> as it was.
\<close>

theorem fetch_replaces_own_frame:
  "(fetch_career_stats e self n per_mode = (Inr df, self1) \<longrightarrow>
      career_stats self1 = Some df \<and> player_id self1 = get_player_id e n
    \<and> player_id self1 \<noteq> None \<and> player_name self1 = Some n
    \<and> PlayerStatsAnalyzer.game_log self1 = PlayerStatsAnalyzer.game_log self)
   \<and> (fetch_game_log e self n season st = (Inr df2, self2) \<longrightarrow>
      PlayerStatsAnalyzer.game_log self2 = Some df2 \<and> player_id self2 = get_player_id e n
    \<and> player_id self2 \<noteq> None \<and> player_name self2 = Some n
    \<and> career_stats self2 = career_stats self)"
  by (auto simp: fetch_career_stats_def fetch_game_log_def Let_def split: option.splits sum.splits)

theorem fetch_replaces_own_frame_witness:
  "fetch_career_stats example_env
       \<lparr>player_id = None, player_name = None, career_stats = None, game_log = Some example_log\<rparr>
       ''LeBron James'' ''PerGame''
     = (Inr example_career,
        \<lparr>player_id = Some 2544, player_name = Some ''LeBron James'',
         career_stats = Some example_career, game_log = Some example_log\<rparr>)
   \<and> PlayerStatsAnalyzer.game_log
        \<lparr>player_id = Some 2544, player_name = Some ''LeBron James'',
         career_stats = Some example_career, game_log = Some example_log\<rparr>
     = Some example_log
   \<and> fetch_game_log example_env
       \<lparr>player_id = None, player_name = None, career_stats = Some example_career, game_log = None\<rparr>
       ''LeBron James'' ''2023-24'' ''Regular Season''
     = (Inr example_log,
        \<lparr>player_id = Some 2544, player_name = Some ''LeBron James'',
         career_stats = Some example_career, game_log = Some example_log\<rparr>)
   \<and> career_stats
        \<lparr>player_id = Some 2544, player_name = Some ''LeBron James'',
         career_stats = Some example_career, game_log = Some example_log\<rparr>
     = Some example_career"
proof -
  have pid: "get_player_id example_env ''LeBron James'' = Some 2544"
    by (simp add: get_player_id_def example_env_def)
  have career: "fetch_career_stats example_env
       \<lparr>player_id = None, player_name = None, career_stats = None, game_log = Some example_log\<rparr>
       ''LeBron James'' ''PerGame''
     = (Inr example_career,
        \<lparr>player_id = Some 2544, player_name = Some ''LeBron James'',
         career_stats = Some example_career, game_log = Some example_log\<rparr>)"
    by (simp add: fetch_career_stats_def pid first_frame_def) (simp add: example_env_def)
  have glog: "fetch_game_log example_env
       \<lparr>player_id = None, player_name = None, career_stats = Some example_career, game_log = None\<rparr>
       ''LeBron James'' ''2023-24'' ''Regular Season''
     = (Inr example_log,
        \<lparr>player_id = Some 2544, player_name = Some ''LeBron James'',
         career_stats = Some example_career, game_log = Some example_log\<rparr>)"
    by (simp add: fetch_game_log_def pid first_frame_def) (simp add: example_env_def)
  from fetch_replaces_own_frame[THEN conjunct1, rule_format, OF career]
       fetch_replaces_own_frame[THEN conjunct2, rule_format, OF glog]
       career glog
  show ?thesis by blast
qed

text \<open>
  C8. When the name does not resolve, \<^verbatim>\<open>fetch_career_stats\<close>, \<^verbatim>\<open>fetch_game_log\<close>
  and \<^verbatim>\<open>fetch_team_game_log\<close> raise after having set the identifier to None and the
  name to the unresolved name; the cached frames keep their values.
\<close>

theorem failed_lookup_keeps_frames:
  "(get_player_id e n = None \<longrightarrow>
      fetch_career_stats e p n per_mode
        = (Inl (ValueError (not_found ''Player'' n)), p\<lparr>player_id := None, player_name := Some n\<rparr>)
    \<and> fetch_game_log e p n season st
        = (Inl (ValueError (not_found ''Player'' n)), p\<lparr>player_id := None, player_name := Some n\<rparr>)
    \<and> career_stats (p\<lparr>player_id := None, player_name := Some n\<rparr>) = career_stats p
    \<and> PlayerStatsAnalyzer.game_log (p\<lparr>player_id := None, player_name := Some n\<rparr>)
        = PlayerStatsAnalyzer.game_log p)
   \<and> (get_team_id e tn = None \<longrightarrow>
      fetch_team_game_log e t tn season st
        = (Inl (ValueError (not_found ''Team'' tn)), t\<lparr>team_id := None, team_name := Some tn\<rparr>)
    \<and> team_stats (t\<lparr>team_id := None, team_name := Some tn\<rparr>) = team_stats t
    \<and> TeamStatsAnalyzer.game_log (t\<lparr>team_id := None, team_name := Some tn\<rparr>)
        = TeamStatsAnalyzer.game_log t)"
  by (simp add: fetch_career_stats_def fetch_game_log_def fetch_team_game_log_def Let_def)

theorem failed_lookup_keeps_frames_witness:
  "fetch_game_log example_env
      \<lparr>player_id = Some 2544, player_name = Some ''LeBron James'',
       career_stats = Some example_career, game_log = Some example_log\<rparr>
      ''Not A Real Player'' ''2023-24'' ''Regular Season''
     = (Inl (ValueError ''Player 'Not A Real Player' not found''),
        \<lparr>player_id = None, player_name = Some ''Not A Real Player'',
         career_stats = Some example_career, game_log = Some example_log\<rparr>)
   \<and> fetch_team_game_log example_env
      \<lparr>team_id = Some 1610612747, team_name = Some ''LAL'',
       team_stats = None, game_log = Some example_log\<rparr>
      ''Not A Real Team'' ''2023-24'' ''Regular Season''
     = (Inl (ValueError ''Team 'Not A Real Team' not found''),
        \<lparr>team_id = None, team_name = Some ''Not A Real Team'',
         team_stats = None, game_log = Some example_log\<rparr>)"
proof -
  have p: "get_player_id example_env ''Not A Real Player'' = None"
    by (simp add: get_player_id_def example_env_def)
  have t: "get_team_id example_env ''Not A Real Team'' = None"
    by (simp add: get_team_id_def example_env_def)
  from failed_lookup_keeps_frames[THEN conjunct1, rule_format, OF p]
       failed_lookup_keeps_frames[THEN conjunct2, rule_format, OF t]
  show ?thesis
    by (simp add: not_found_def)
qed

text \<open>
  C2 states that each analyzer holds at most one cached dataframe at any time. That holds
  for ShotChartAnalyzer, which has one dataframe attribute. PlayerStatsAnalyzer and
  TeamStatsAnalyzer have two each, filled by different fetch methods: after
  \<^verbatim>\<open>fetch_career_stats\<close> and \<^verbatim>\<open>fetch_game_log\<close> (or \<^verbatim>\<open>fetch_league_standings\<close> and
  \<^verbatim>\<open>fetch_team_game_log\<close>) both are cached.
\<close>

theorem two_frames_cached_counterexample:
  "player_cached
     (player_run
        [(example_env, Player_fetch_career_stats ''LeBron James'' ''PerGame''),
         (example_env, Player_fetch_game_log ''LeBron James'' ''2023-24'' ''Regular Season'')]
        player_init) = 2
   \<and> team_cached
     (team_run
        [(example_env, Team_fetch_league_standings ''2023-24'' ''Regular Season''),
         (example_env, Team_fetch_team_game_log ''LAL'' ''2023-24'' ''Regular Season'')]
        team_init) = 2"
  using example_runs_cache_two by blast

text \<open>
  C2, amended. After every sequence of calls on a fresh analyzer, a ShotChartAnalyzer
  holds at most one cached dataframe, and a PlayerStatsAnalyzer and a TeamStatsAnalyzer
  hold at most two, one per dataframe attribute. Every call on a PlayerStatsAnalyzer or a
  TeamStatsAnalyzer leaves both attributes as they were or stores a frame in exactly one
  of them and leaves the other as it was, and after one fetch of each kind both are set at
  the same time.
\<close>

theorem one_frame_per_attribute:
  "shot_cached (shot_run cs shot_init) \<le> 1
   \<and> player_cached (player_run ps player_init) \<le> 2
   \<and> team_cached (team_run ts team_init) \<le> 2
   \<and> ((career_stats (player_effect e pc p) = career_stats p
        \<and> PlayerStatsAnalyzer.game_log (player_effect e pc p) = PlayerStatsAnalyzer.game_log p)
      \<or> (\<exists>df. career_stats (player_effect e pc p) = Some df
        \<and> PlayerStatsAnalyzer.game_log (player_effect e pc p) = PlayerStatsAnalyzer.game_log p)
      \<or> (\<exists>df. PlayerStatsAnalyzer.game_log (player_effect e pc p) = Some df
        \<and> career_stats (player_effect e pc p) = career_stats p))
   \<and> ((team_stats (team_effect e tc t) = team_stats t
        \<and> TeamStatsAnalyzer.game_log (team_effect e tc t) = TeamStatsAnalyzer.game_log t)
      \<or> (\<exists>df. team_stats (team_effect e tc t) = Some df
        \<and> TeamStatsAnalyzer.game_log (team_effect e tc t) = TeamStatsAnalyzer.game_log t)
      \<or> (\<exists>df. TeamStatsAnalyzer.game_log (team_effect e tc t) = Some df
        \<and> team_stats (team_effect e tc t) = team_stats t))
   \<and> player_cached
       (player_run
          [(example_env, Player_fetch_career_stats ''LeBron James'' ''PerGame''),
           (example_env, Player_fetch_game_log ''LeBron James'' ''2023-24'' ''Regular Season'')]
          player_init) = 2
   \<and> team_cached
       (team_run
          [(example_env, Team_fetch_league_standings ''2023-24'' ''Regular Season''),
           (example_env, Team_fetch_team_game_log ''LAL'' ''2023-24'' ''Regular Season'')]
          team_init) = 2"
proof -
  have two: "cached a + cached b \<le> 2" for a b
    using cached_le_1[of a] cached_le_1[of b] by linarith
  have "shot_cached (shot_run cs shot_init) \<le> 1"
    unfolding shot_cached_def by (rule cached_le_1)
  moreover have "player_cached (player_run ps player_init) \<le> 2"
    unfolding player_cached_def by (rule two)
  moreover have "team_cached (team_run ts team_init) \<le> 2"
    unfolding team_cached_def by (rule two)
  ultimately show ?thesis
    using player_effect_frames[of e pc p] team_effect_frames[of e tc t] example_runs_cache_two
    by blast
qed

theorem one_frame_per_attribute_witness:
  "player_cached
     (player_run
        [(example_env, Player_fetch_career_stats ''LeBron James'' ''PerGame''),
         (example_env, Player_fetch_game_log ''LeBron James'' ''2023-24'' ''Regular Season'')]
        player_init) \<le> 2
   \<and> shot_cached
     (shot_run
        [(example_env, Shot_fetch_shot_data ''LeBron James'' ''2023-24'' ''Regular Season''),
         (example_env, Shot_fetch_shot_data ''LeBron James'' ''2022-23'' ''Playoffs'')]
        shot_init) \<le> 1
   \<and> career_stats
        (player_effect example_env
           (Player_fetch_game_log ''LeBron James'' ''2023-24'' ''Regular Season'')
           (player_init\<lparr>career_stats := Some example_career\<rparr>))
       = Some example_career
   \<and> PlayerStatsAnalyzer.game_log
        (player_effect example_env
           (Player_fetch_game_log ''LeBron James'' ''2023-24'' ''Regular Season'')
           (player_init\<lparr>career_stats := Some example_career\<rparr>))
       = Some example_log"
proof -
  let ?p = "player_init\<lparr>career_stats := Some example_career\<rparr>"
  let ?c = "Player_fetch_game_log ''LeBron James'' ''2023-24'' ''Regular Season''"
  have pid: "get_player_id example_env ''LeBron James'' = Some 2544"
    by (simp add: get_player_id_def example_env_def)
  have g: "PlayerStatsAnalyzer.game_log (player_effect example_env ?c ?p) = Some example_log"
    by (simp add: fetch_game_log_def pid first_frame_def player_init_def)
       (simp add: example_env_def)
  have before: "career_stats ?p = Some example_career"
    "PlayerStatsAnalyzer.game_log ?p = None"
    by (simp_all add: player_init_def)
  note inst = one_frame_per_attribute[of
      "[(example_env, Shot_fetch_shot_data ''LeBron James'' ''2023-24'' ''Regular Season''),
        (example_env, Shot_fetch_shot_data ''LeBron James'' ''2022-23'' ''Playoffs'')]"
      "[(example_env, Player_fetch_career_stats ''LeBron James'' ''PerGame''),
        (example_env, Player_fetch_game_log ''LeBron James'' ''2023-24'' ''Regular Season'')]"
      "[]" example_env ?c ?p "Team_get_team_summary" team_init]
  from inst g before show ?thesis
    by (metis option.distinct(1))
qed

text \<open>
  C9 states that on a missing frame (None or without rows) the summaries return an empty
  result while the corresponding plot methods raise. \<^verbatim>\<open>plot_shot_chart\<close> does not
  raise there: on a frame of the endpoint without rows it draws an empty chart whose
  percentage is 0, and on None it fetches the data first.
\<close>

theorem empty_chart_counterexample:
  "missing (shot_data \<lparr>shot_data = Some no_shots\<rparr>)
   \<and> get_shot_statistics \<lparr>shot_data = Some no_shots\<rparr> = Inr Map.empty
   \<and> plot_shot_chart example_env \<lparr>shot_data = Some no_shots\<rparr>
        ''LeBron James'' ''2023-24'' ''Regular Season'' None
     = (Inr \<lparr>fig_artists = [Scatter ''Missed'' [] [], Scatter ''Made'' [] []],
             fig_title = ShotChartTitle ''LeBron James'' ''2023-24'' ''Regular Season'' (IntV 0)\<rparr>,
        \<lparr>shot_data = Some no_shots\<rparr>)
   \<and> missing (shot_data shot_init)
   \<and> get_shot_statistics shot_init = Inr Map.empty
   \<and> plot_shot_chart example_env shot_init ''LeBron James'' ''2023-24'' ''Regular Season'' None
     = (Inr \<lparr>fig_artists =
               [Scatter ''Missed'' [IntV (- 10), IntV 40] [IntV 20, IntV 60],
                Scatter ''Made'' [IntV 230, IntV 5] [IntV 50, IntV 8]],
             fig_title = ShotChartTitle ''LeBron James'' ''2023-24'' ''Regular Season'' (FloatV 50)\<rparr>,
        \<lparr>shot_data = Some example_shots\<rparr>)"
proof -
  have s: "shot_data \<lparr>shot_data = Some no_shots\<rparr> = Some no_shots" by simp
  have empty: "shot_chart_figure \<lparr>shot_data = Some no_shots\<rparr>
        ''LeBron James'' ''2023-24'' ''Regular Season'' None
      = Inr \<lparr>fig_artists = [Scatter ''Missed'' [] [], Scatter ''Made'' [] []],
             fig_title = ShotChartTitle ''LeBron James'' ''2023-24'' ''Regular Season'' (IntV 0)\<rparr>"
    unfolding shot_chart_figure_cached[OF s]
    by (simp add: no_shots_def percentage_or_zero_def)
  have 1: "missing (shot_data \<lparr>shot_data = Some no_shots\<rparr>)"
    by (simp add: missing_def no_shots_def df_len_def)
  have 2: "get_shot_statistics \<lparr>shot_data = Some no_shots\<rparr> = Inr Map.empty"
    by (simp add: get_shot_statistics_def no_shots_def df_len_def)
  have 3: "plot_shot_chart example_env \<lparr>shot_data = Some no_shots\<rparr>
        ''LeBron James'' ''2023-24'' ''Regular Season'' None
      = (shot_chart_figure \<lparr>shot_data = Some no_shots\<rparr>
           ''LeBron James'' ''2023-24'' ''Regular Season'' None, \<lparr>shot_data = Some no_shots\<rparr>)"
    by (simp add: plot_shot_chart_def)
  have 4: "missing (shot_data shot_init)"
    by (simp add: missing_def shot_init_def)
  have 5: "get_shot_statistics shot_init = Inr Map.empty"
    by (simp add: get_shot_statistics_def shot_init_def)
  have pid: "get_player_id example_env ''LeBron James'' = Some 2544"
    by (simp add: get_player_id_def example_env_def)
  have f: "fetch_shot_data example_env shot_init ''LeBron James'' ''2023-24'' ''Regular Season''
      = (Inr example_shots, \<lparr>shot_data = Some example_shots\<rparr>)"
    by (simp add: fetch_shot_data_def pid first_frame_def shot_init_def) (simp add: example_env_def)
  have 6: "plot_shot_chart example_env shot_init ''LeBron James'' ''2023-24'' ''Regular Season'' None
      = (shot_chart_figure \<lparr>shot_data = Some example_shots\<rparr>
           ''LeBron James'' ''2023-24'' ''Regular Season'' None, \<lparr>shot_data = Some example_shots\<rparr>)"
    by (simp add: plot_shot_chart_def f) (simp add: shot_init_def)
  show ?thesis
    unfolding 3 6 empty example_chart using 1 2 4 5 by simp
qed

text \<open>
  C9, amended. On a missing frame \<^verbatim>\<open>get_shot_statistics\<close>,
  \<^verbatim>\<open>get_season_averages\<close> and \<^verbatim>\<open>get_team_summary\<close> return an empty dictionary and
  \<^verbatim>\<open>create_stats_summary\<close> an empty dataframe, and the plot methods of
  PlayerStatsAnalyzer and TeamStatsAnalyzer on the same game log
  (\<^verbatim>\<open>plot_season_performance\<close>, \<^verbatim>\<open>plot_shooting_splits\<close>,
  \<^verbatim>\<open>plot_team_performance\<close>, \<^verbatim>\<open>plot_win_loss_record\<close>) raise ValueError.
  \<^verbatim>\<open>plot_shot_chart\<close> has no such guard. On a cached frame without rows that has the
  columns \<^verbatim>\<open>SHOT_MADE_FLAG\<close>, \<^verbatim>\<open>LOC_X\<close> and \<^verbatim>\<open>LOC_Y\<close> it returns a chart without
  shots, whose default title carries the percentage 0, and leaves the analyzer as it was.
  On None it fetches first: it raises what the fetch raises, and otherwise charts the
  fetched frame, which is then cached.
\<close>

theorem summaries_empty_plots_raise:
  "(missing (shot_data s) \<longrightarrow> get_shot_statistics s = Inr Map.empty)
   \<and> (missing (PlayerStatsAnalyzer.game_log p) \<longrightarrow>
        get_season_averages p = Inr Map.empty
      \<and> create_stats_summary p = Inr empty_dataframe
      \<and> plot_season_performance p stat_columns
          = Inl (ValueError ''No game log loaded. Call fetch_game_log first.'')
      \<and> plot_shooting_splits p
          = Inl (ValueError ''No game log loaded. Call fetch_game_log first.''))
   \<and> (missing (TeamStatsAnalyzer.game_log t) \<longrightarrow>
        get_team_summary t = Inr Map.empty
      \<and> plot_team_performance t stat_columns
          = Inl (ValueError ''No game log loaded. Call fetch_team_game_log first.'')
      \<and> plot_win_loss_record t
          = Inl (ValueError ''No game log loaded. Call fetch_team_game_log first.''))
   \<and> (\<forall>df. shot_data s = Some df \<and> rows df = []
           \<and> ''SHOT_MADE_FLAG'' \<in> set (columns df) \<and> ''LOC_X'' \<in> set (columns df)
           \<and> ''LOC_Y'' \<in> set (columns df) \<longrightarrow>
        plot_shot_chart e s n season st title
          = (Inr \<lparr>fig_artists = [Scatter ''Missed'' [] [], Scatter ''Made'' [] []],
                  fig_title =
                    (case title of
                       Some x \<Rightarrow> Title x
                     | None \<Rightarrow> ShotChartTitle n season st (IntV 0))\<rparr>,
             s))
   \<and> (\<forall>err s1. shot_data s = None \<and> fetch_shot_data e s n season st = (Inl err, s1) \<longrightarrow>
        plot_shot_chart e s n season st title = (Inl err, s1))
   \<and> (\<forall>df s1. shot_data s = None \<and> fetch_shot_data e s n season st = (Inr df, s1) \<longrightarrow>
        shot_data s1 = Some df
      \<and> plot_shot_chart e s n season st title = (shot_chart_figure s1 n season st title, s1))"
proof -
  have summaries: "(missing (shot_data s) \<longrightarrow> get_shot_statistics s = Inr Map.empty)
   \<and> (missing (PlayerStatsAnalyzer.game_log p) \<longrightarrow>
        get_season_averages p = Inr Map.empty
      \<and> create_stats_summary p = Inr empty_dataframe
      \<and> plot_season_performance p stat_columns
          = Inl (ValueError ''No game log loaded. Call fetch_game_log first.'')
      \<and> plot_shooting_splits p
          = Inl (ValueError ''No game log loaded. Call fetch_game_log first.''))
   \<and> (missing (TeamStatsAnalyzer.game_log t) \<longrightarrow>
        get_team_summary t = Inr Map.empty
      \<and> plot_team_performance t stat_columns
          = Inl (ValueError ''No game log loaded. Call fetch_team_game_log first.'')
      \<and> plot_win_loss_record t
          = Inl (ValueError ''No game log loaded. Call fetch_team_game_log first.''))"
    by (simp add: missing_def get_shot_statistics_def get_season_averages_def
        create_stats_summary_def plot_season_performance_def plot_shooting_splits_def
        get_team_summary_def plot_team_performance_def plot_win_loss_record_def
        split: option.splits)
  have empty: "plot_shot_chart e s n season st title
          = (Inr \<lparr>fig_artists = [Scatter ''Missed'' [] [], Scatter ''Made'' [] []],
                  fig_title =
                    (case title of
                       Some x \<Rightarrow> Title x
                     | None \<Rightarrow> ShotChartTitle n season st (IntV 0))\<rparr>,
             s)"
    if "shot_data s = Some df" "rows df = []" "''SHOT_MADE_FLAG'' \<in> set (columns df)"
      "''LOC_X'' \<in> set (columns df)" "''LOC_Y'' \<in> set (columns df)" for df
    using that
    by (simp add: plot_shot_chart_def shot_chart_figure_cached[OF that(1)]
        percentage_or_zero_def split: option.splits)
  have raised: "plot_shot_chart e s n season st title = (Inl err, s1)"
    if "shot_data s = None" "fetch_shot_data e s n season st = (Inl err, s1)" for err s1
    using that by (simp add: plot_shot_chart_def)
  have fetched: "shot_data s1 = Some df
      \<and> plot_shot_chart e s n season st title = (shot_chart_figure s1 n season st title, s1)"
    if "shot_data s = None" "fetch_shot_data e s n season st = (Inr df, s1)" for df s1
  proof -
    from that(2) have "shot_data s1 = Some df"
      by (auto simp: fetch_shot_data_def split: option.splits sum.splits)
    with that show ?thesis by (simp add: plot_shot_chart_def)
  qed
  from summaries empty raised fetched show ?thesis by blast
qed

theorem summaries_empty_plots_raise_witness:
  "get_shot_statistics shot_init = Inr Map.empty
   \<and> get_season_averages player_init = Inr Map.empty
   \<and> create_stats_summary player_init = Inr empty_dataframe
   \<and> plot_season_performance player_init [''PTS'', ''AST'', ''REB'']
       = Inl (ValueError ''No game log loaded. Call fetch_game_log first.'')
   \<and> plot_shooting_splits player_init
       = Inl (ValueError ''No game log loaded. Call fetch_game_log first.'')
   \<and> get_team_summary (team_init\<lparr>TeamStatsAnalyzer.game_log := Some empty_dataframe\<rparr>) = Inr Map.empty
   \<and> plot_team_performance (team_init\<lparr>TeamStatsAnalyzer.game_log := Some empty_dataframe\<rparr>)
        [''PTS'', ''AST'', ''REB'']
       = Inl (ValueError ''No game log loaded. Call fetch_team_game_log first.'')
   \<and> plot_win_loss_record (team_init\<lparr>TeamStatsAnalyzer.game_log := Some empty_dataframe\<rparr>)
       = Inl (ValueError ''No game log loaded. Call fetch_team_game_log first.'')
   \<and> plot_shot_chart example_env \<lparr>shot_data = Some no_shots\<rparr>
        ''LeBron James'' ''2023-24'' ''Regular Season'' None
       = (Inr \<lparr>fig_artists = [Scatter ''Missed'' [] [], Scatter ''Made'' [] []],
               fig_title = ShotChartTitle ''LeBron James'' ''2023-24'' ''Regular Season'' (IntV 0)\<rparr>,
          \<lparr>shot_data = Some no_shots\<rparr>)
   \<and> plot_shot_chart example_env shot_init ''Not A Real Player'' ''2023-24'' ''Regular Season'' None
       = (Inl (ValueError (not_found ''Player'' ''Not A Real Player'')), shot_init)
   \<and> plot_shot_chart example_env shot_init ''LeBron James'' ''2023-24'' ''Regular Season'' None
       = (shot_chart_figure \<lparr>shot_data = Some example_shots\<rparr>
            ''LeBron James'' ''2023-24'' ''Regular Season'' None,
          \<lparr>shot_data = Some example_shots\<rparr>)"
proof -
  let ?t = "team_init\<lparr>TeamStatsAnalyzer.game_log := Some empty_dataframe\<rparr>"
  let ?cols = "[''PTS'', ''AST'', ''REB'']"
  have s: "missing (shot_data shot_init)"
    by (simp add: missing_def shot_init_def)
  have p: "missing (PlayerStatsAnalyzer.game_log player_init)"
    by (simp add: missing_def player_init_def)
  have t: "missing (TeamStatsAnalyzer.game_log ?t)"
    by (simp add: missing_def empty_dataframe_def df_len_def)
  have none: "shot_data shot_init = None"
    by (simp add: shot_init_def)
  have empty: "shot_data \<lparr>shot_data = Some no_shots\<rparr> = Some no_shots \<and> rows no_shots = []
      \<and> ''SHOT_MADE_FLAG'' \<in> set (columns no_shots) \<and> ''LOC_X'' \<in> set (columns no_shots)
      \<and> ''LOC_Y'' \<in> set (columns no_shots)"
    by (simp add: no_shots_def)
  have unresolved: "fetch_shot_data example_env shot_init ''Not A Real Player'' ''2023-24''
        ''Regular Season''
      = (Inl (ValueError (not_found ''Player'' ''Not A Real Player'')), shot_init)"
    by (simp add: fetch_shot_data_def get_player_id_def example_env_def)
  have pid: "get_player_id example_env ''LeBron James'' = Some 2544"
    by (simp add: get_player_id_def example_env_def)
  have resolved: "fetch_shot_data example_env shot_init ''LeBron James'' ''2023-24''
        ''Regular Season''
      = (Inr example_shots, \<lparr>shot_data = Some example_shots\<rparr>)"
    by (simp add: fetch_shot_data_def pid first_frame_def shot_init_def) (simp add: example_env_def)
  note a = summaries_empty_plots_raise[of shot_init player_init ?cols ?t example_env
      "''Not A Real Player''" "''2023-24''" "''Regular Season''" None]
  note b = summaries_empty_plots_raise[of shot_init player_init ?cols ?t example_env
      "''LeBron James''" "''2023-24''" "''Regular Season''" None]
  note c = summaries_empty_plots_raise[of "\<lparr>shot_data = Some no_shots\<rparr>" player_init ?cols ?t
      example_env "''LeBron James''" "''2023-24''" "''Regular Season''" None]
  from a s p t have 1: "get_shot_statistics shot_init = Inr Map.empty
   \<and> get_season_averages player_init = Inr Map.empty
   \<and> create_stats_summary player_init = Inr empty_dataframe
   \<and> plot_season_performance player_init ?cols
       = Inl (ValueError ''No game log loaded. Call fetch_game_log first.'')
   \<and> plot_shooting_splits player_init
       = Inl (ValueError ''No game log loaded. Call fetch_game_log first.'')
   \<and> get_team_summary ?t = Inr Map.empty
   \<and> plot_team_performance ?t ?cols
       = Inl (ValueError ''No game log loaded. Call fetch_team_game_log first.'')
   \<and> plot_win_loss_record ?t
       = Inl (ValueError ''No game log loaded. Call fetch_team_game_log first.'')"
    by blast
  from a none unresolved have 2: "plot_shot_chart example_env shot_init ''Not A Real Player''
        ''2023-24'' ''Regular Season'' None
      = (Inl (ValueError (not_found ''Player'' ''Not A Real Player'')), shot_init)"
    by blast
  from b none resolved have 3: "plot_shot_chart example_env shot_init ''LeBron James''
        ''2023-24'' ''Regular Season'' None
      = (shot_chart_figure \<lparr>shot_data = Some example_shots\<rparr>
            ''LeBron James'' ''2023-24'' ''Regular Season'' None,
          \<lparr>shot_data = Some example_shots\<rparr>)"
    by blast
  from c empty have 4: "plot_shot_chart example_env \<lparr>shot_data = Some no_shots\<rparr>
        ''LeBron James'' ''2023-24'' ''Regular Season'' None
       = (Inr \<lparr>fig_artists = [Scatter ''Missed'' [] [], Scatter ''Made'' [] []],
               fig_title = (case None of Some x \<Rightarrow> Title x
                  | None \<Rightarrow> ShotChartTitle ''LeBron James'' ''2023-24'' ''Regular Season'' (IntV 0))\<rparr>,
          \<lparr>shot_data = Some no_shots\<rparr>)"
    by blast
  from 1 2 3 4 show ?thesis by simp
qed

text \<open>
  C10. When \<^verbatim>\<open>shot_data\<close> is already cached, \<^verbatim>\<open>plot_shot_chart\<close> fetches nothing
  (its result does not depend on the provider) and leaves the analyzer unchanged; the
  plotted shots and the field-goal percentage are computed from the cached frame, and the
  plotted shots are the same whatever player, season and season type the call names. The
  arguments only reach the text of the default title.
\<close>

theorem cached_chart_ignores_arguments:
  assumes "shot_data self = Some df"
  shows "plot_shot_chart e self n season st title
           = (shot_chart_figure self n season st title, self)
    \<and> snd (plot_shot_chart e self n season st title) = self
    \<and> fst (plot_shot_chart e self n season st title)
        = fst (plot_shot_chart e' self n season st title)
    \<and> map_sum id fig_artists (fst (plot_shot_chart e self n season st title))
        = map_sum id fig_artists (fst (plot_shot_chart e' self n' season' st' title'))
    \<and> (\<forall>fig. fst (plot_shot_chart e self n season st title) = Inr fig \<longrightarrow>
          fig_artists fig =
            [Scatter ''Missed'' (map (\<lambda>r. r ''LOC_X'') (filter shot_missed (rows df)))
                                (map (\<lambda>r. r ''LOC_Y'') (filter shot_missed (rows df))),
             Scatter ''Made'' (map (\<lambda>r. r ''LOC_X'') (filter shot_made (rows df)))
                              (map (\<lambda>r. r ''LOC_Y'') (filter shot_made (rows df)))]
        \<and> (title = None \<longrightarrow>
             fig_title fig = ShotChartTitle n season st
               (percentage_or_zero (length (filter shot_made (rows df))) (length (rows df)))))"
proof -
  have plot: "plot_shot_chart e0 self n0 s0 t0 title0
      = (shot_chart_figure self n0 s0 t0 title0, self)" for e0 n0 s0 t0 title0
    using assms by (simp add: plot_shot_chart_def)
  show ?thesis
    unfolding plot fst_conv snd_conv shot_chart_figure_cached[OF assms]
    by (auto split: if_splits)
qed

theorem cached_chart_ignores_arguments_witness:
  "plot_shot_chart example_env \<lparr>shot_data = Some example_shots\<rparr>
       ''Not A Real Player'' ''1999-00'' ''Playoffs'' None
     = (Inr \<lparr>fig_artists =
               [Scatter ''Missed'' [IntV (- 10), IntV 40] [IntV 20, IntV 60],
                Scatter ''Made'' [IntV 230, IntV 5] [IntV 50, IntV 8]],
             fig_title = ShotChartTitle ''Not A Real Player'' ''1999-00'' ''Playoffs'' (FloatV 50)\<rparr>,
        \<lparr>shot_data = Some example_shots\<rparr>)
   \<and> get_player_id example_env ''Not A Real Player'' = None"
proof -
  have s: "shot_data \<lparr>shot_data = Some example_shots\<rparr> = Some example_shots" by simp
  have p: "get_player_id example_env ''Not A Real Player'' = None"
    by (simp add: get_player_id_def example_env_def)
  from cached_chart_ignores_arguments[OF s, THEN conjunct1] p show ?thesis
    by (simp only: example_chart simp_thms)
qed

end
